theory Spec2Isabelle
  imports Main
begin

section \<open>Python values and strings\<close>

text \<open>
  The module \<^verbatim>\<open>ib_insync/ibcontroller.py\<close> holds three classes: \<^verbatim>\<open>IBC\<close> and
  \<^verbatim>\<open>IBController\<close>, which start and stop an external application, and
  \<^verbatim>\<open>Watchdog\<close>, which restarts it on failure. The argument values of \<^verbatim>\<open>IBC\<close> are
  \<^verbatim>\<open>None\<close>, booleans, integers and strings.
\<close>

datatype pyval = PNone | PBool bool | PInt int | PStr string

text \<open>Truth value of \<^verbatim>\<open>if v:\<close>.\<close>

fun truthy :: "pyval \<Rightarrow> bool" where
  "truthy PNone = False"
| "truthy (PBool b) = b"
| "truthy (PInt i) = (i \<noteq> 0)"
| "truthy (PStr s) = (s \<noteq> [])"

fun str_nat :: "nat \<Rightarrow> string" where
  "str_nat n = (if n < 10 then [''0123456789'' ! n]
                else str_nat (n div 10) @ [''0123456789'' ! (n mod 10)])"

definition str_int :: "int \<Rightarrow> string" where
  "str_int i = (if i < 0 then ''-'' @ str_nat (nat (- i)) else str_nat (nat i))"

text \<open>\<^verbatim>\<open>str(v)\<close>, which is also what an f-string writes for \<^verbatim>\<open>{v}\<close>.\<close>

fun py_str :: "pyval \<Rightarrow> string" where
  "py_str PNone = ''None''"
| "py_str (PBool b) = (if b then ''True'' else ''False'')"
| "py_str (PInt i) = str_int i"
| "py_str (PStr s) = s"

text \<open>\<^verbatim>\<open>s.endswith(suf)\<close>.\<close>

definition endswith :: "string \<Rightarrow> string \<Rightarrow> bool" where
  "endswith s suf = (length suf \<le> length s \<and> drop (length s - length suf) s = suf)"

text \<open>\<^verbatim>\<open>' '.join(l)\<close>.\<close>

fun join_space :: "string list \<Rightarrow> string" where
  "join_space [] = []"
| "join_space [x] = x"
| "join_space (x # y # ys) = x @ '' '' @ join_space (y # ys)"

section \<open>Exceptions and outcomes of a call\<close>

datatype exn =
    AssertionError
  | AttributeError
  | KeyError
  | ProcessLookupError
  | FileNotFoundError
  | ConnectionRefusedError
  | UnicodeDecodeError
  | TimeoutError
  | ValueError
  | CancelledError
  | OtherError string

text \<open>
  A call returns, raises, or never completes (an \<^verbatim>\<open>await\<close> that is never woken
  up). Each outcome carries the state reached.
\<close>

datatype 'a outcome = Returns 'a | Raises exn 'a | Hangs 'a

fun state_of :: "'a outcome \<Rightarrow> 'a" where
  "state_of (Returns x) = x"
| "state_of (Raises e x) = x"
| "state_of (Hangs x) = x"

fun returned :: "'a outcome \<Rightarrow> bool" where
  "returned (Returns x) = True"
| "returned (Raises e x) = False"
| "returned (Hangs x) = False"

fun map_outcome :: "('a \<Rightarrow> 'b) \<Rightarrow> 'a outcome \<Rightarrow> 'b outcome" where
  "map_outcome f (Returns x) = Returns (f x)"
| "map_outcome f (Raises e x) = Raises e (f x)"
| "map_outcome f (Hangs x) = Hangs (f x)"

text \<open>Sequencing of two statements: the second runs only if the first returned.\<close>

fun and_then :: "'a outcome \<Rightarrow> ('a \<Rightarrow> 'a outcome) \<Rightarrow> 'a outcome" where
  "and_then (Returns x) f = f x"
| "and_then (Raises e x) f = Raises e x"
| "and_then (Hangs x) f = Hangs x"

section \<open>The world outside the objects\<close>

text \<open>
  A spawned process is \<open>Running\<close> (it exits when it is told to, by the terminate
  signal or by the \<^verbatim>\<open>STOP\<close> command), \<open>Unresponsive\<close> (it never exits) or
  \<open>Exited\<close>.
\<close>

datatype pstatus = Running | Unresponsive | Exited

datatype level = DEBUG | INFO | ERROR

datatype coro = Controller_monitorAsync | Watchdog_watchAsync

datatype callback = Watchdog_start

text \<open>Every call that leaves the module is recorded, in order.\<close>

datatype action =
    Log string level string
  | Subprocess_shell nat string "string \<Rightarrow> string option"
  | Ensure_future nat coro
  | Proc_terminate nat
  | Proc_wait nat
  | Task_cancel nat
  | Open_file string
  | Open_connection string int
  | Write_bytes string
  | Drain
  | Close_writer
  | IB_disconnect
  | IB_setTimeout int
  | IB_reqHistoricalData string string string string string bool
  | Wait_for int
  | Call_later int callback

record world =
  win32 :: bool
  environ :: "string \<Rightarrow> string option"
  expanduser :: "string \<Rightarrow> string"
  files :: "string \<Rightarrow> string option"
  listening :: "int \<Rightarrow> bool"
  os_procs :: "nat \<Rightarrow> pstatus"
  next_pid :: nat
  tasks :: "(nat \<times> coro) list"
  next_tid :: nat
  timers :: "(int \<times> callback) list"
  loop_running :: bool
  trace :: "action list"

definition emit :: "action \<Rightarrow> world \<Rightarrow> world" where
  "emit a s = s\<lparr>trace := trace s @ [a]\<rparr>"

text \<open>\<^verbatim>\<open>logging.getLogger(name).log(level, msg)\<close>.\<close>

definition log_msg :: "string \<Rightarrow> level \<Rightarrow> string \<Rightarrow> world \<Rightarrow> world" where
  "log_msg name lvl msg s = emit (Log name lvl msg) s"

text \<open>
  \<^verbatim>\<open>asyncio.create_subprocess_shell(cmd, env=env, stdout=PIPE)\<close>: a new process with
  a fresh pid; the pid is the handle.
\<close>

definition create_subprocess_shell ::
  "string \<Rightarrow> (string \<Rightarrow> string option) \<Rightarrow> world \<Rightarrow> nat \<times> world" where
  "create_subprocess_shell cmd env s =
     (next_pid s,
      emit (Subprocess_shell (next_pid s) cmd env)
        (s\<lparr>os_procs := (os_procs s)(next_pid s := Running), next_pid := Suc (next_pid s)\<rparr>))"

text \<open>
  \<^verbatim>\<open>asyncio.ensure_future(coro)\<close>: the task is put on the event loop, whether the
  loop is running or not, and starts when the loop next runs.
\<close>

definition ensure_future :: "coro \<Rightarrow> world \<Rightarrow> nat \<times> world" where
  "ensure_future co s =
     (next_tid s,
      emit (Ensure_future (next_tid s) co)
        (s\<lparr>tasks := tasks s @ [(next_tid s, co)], next_tid := Suc (next_tid s)\<rparr>))"

text \<open>\<^verbatim>\<open>task.cancel()\<close>.\<close>

definition task_cancel :: "nat \<Rightarrow> world \<Rightarrow> world" where
  "task_cancel tid s = emit (Task_cancel tid) (s\<lparr>tasks := filter (\<lambda>t. fst t \<noteq> tid) (tasks s)\<rparr>)"

text \<open>
  \<^verbatim>\<open>loop.call_later(delay, callback)\<close>: one more pending timer. The handle that
  \<^verbatim>\<open>call_later\<close> returns is what could cancel it.
\<close>

definition call_later :: "int \<Rightarrow> callback \<Rightarrow> world \<Rightarrow> world" where
  "call_later delay cb s = emit (Call_later delay cb) (s\<lparr>timers := timers s @ [(delay, cb)]\<rparr>)"

text \<open>
  \<^verbatim>\<open>proc.terminate()\<close>: raises \<^verbatim>\<open>ProcessLookupError\<close> when the process is gone.
\<close>

definition proc_terminate :: "nat \<Rightarrow> world \<Rightarrow> world outcome" where
  "proc_terminate pid s =
     (if os_procs s pid = Exited then Raises ProcessLookupError s
      else Returns (emit (Proc_terminate pid) s))"

text \<open>
  \<^verbatim>\<open>await proc.wait()\<close>, called after the process was told to exit; it never
  completes when the process never exits.
\<close>

definition proc_wait :: "nat \<Rightarrow> world \<Rightarrow> world outcome" where
  "proc_wait pid s =
     (case os_procs s pid of
        Unresponsive \<Rightarrow> Hangs (emit (Proc_wait pid) s)
      | Running \<Rightarrow> Returns (emit (Proc_wait pid) (s\<lparr>os_procs := (os_procs s)(pid := Exited)\<rparr>))
      | Exited \<Rightarrow> Returns (emit (Proc_wait pid) s))"

text \<open>\<^verbatim>\<open>with suppress(e): ...\<close>.\<close>

fun suppress :: "exn \<Rightarrow> 'a outcome \<Rightarrow> 'a outcome" where
  "suppress e (Returns x) = Returns x"
| "suppress e (Raises e' x) = (if e' = e then Returns x else Raises e' x)"
| "suppress e (Hangs x) = Hangs x"

text \<open>\<^verbatim>\<open>open(path).read()\<close>.\<close>

definition open_read :: "string \<Rightarrow> world \<Rightarrow> exn + string \<times> world" where
  "open_read path s =
     (case files s path of
        None \<Rightarrow> Inl FileNotFoundError
      | Some txt \<Rightarrow> Inr (txt, emit (Open_file path) s))"

text \<open>\<^verbatim>\<open>asyncio.open_connection(host, port)\<close>.\<close>

definition open_connection :: "string \<Rightarrow> int \<Rightarrow> world \<Rightarrow> world outcome" where
  "open_connection h p s =
     (if listening s p then Returns (emit (Open_connection h p) s)
      else Raises ConnectionRefusedError s)"

text \<open>
  A fresh interpreter on a Unix machine: no file, no listener, no process, an event loop
  that is not running.
\<close>

definition world0 :: world where
  "world0 = \<lparr>win32 = False, environ = (\<lambda>k. None), expanduser = (\<lambda>p. p), files = (\<lambda>p. None),
             listening = (\<lambda>p. False), os_procs = (\<lambda>p. Exited), next_pid = 0, tasks = [],
             next_tid = 0, timers = [], loop_running = False, trace = []\<rparr>"

text \<open>Bytes are strings of 8-bit characters. \<^verbatim>\<open>bytes.strip()\<close> removes ASCII white space.\<close>

definition is_space :: "char \<Rightarrow> bool" where
  "is_space c = (c = CHR 0x20 \<or> c = CHR 0x09 \<or> c = CHR 0x0A \<or> c = CHR 0x0D \<or> c = CHR 0x0B \<or> c = CHR 0x0C)"

definition strip :: "string \<Rightarrow> string" where
  "strip bs = rev (dropWhile is_space (rev (dropWhile is_space bs)))"

text \<open>
  \<^verbatim>\<open>bytes.decode()\<close>: strict UTF-8. The decoded text is kept as its UTF-8 bytes.
\<close>

definition utf8_cont :: "char \<Rightarrow> bool" where
  "utf8_cont c = (0x80 \<le> (of_char c :: nat) \<and> (of_char c :: nat) \<le> 0xBF)"

definition utf8_second3 :: "nat \<Rightarrow> char \<Rightarrow> bool" where
  "utf8_second3 n c =
     (if n = 0xE0 then 0xA0 \<le> (of_char c :: nat) \<and> (of_char c :: nat) \<le> 0xBF
      else if n = 0xED then 0x80 \<le> (of_char c :: nat) \<and> (of_char c :: nat) \<le> 0x9F
      else utf8_cont c)"

definition utf8_second4 :: "nat \<Rightarrow> char \<Rightarrow> bool" where
  "utf8_second4 n c =
     (if n = 0xF0 then 0x90 \<le> (of_char c :: nat) \<and> (of_char c :: nat) \<le> 0xBF
      else if n = 0xF4 then 0x80 \<le> (of_char c :: nat) \<and> (of_char c :: nat) \<le> 0x8F
      else utf8_cont c)"

fun utf8_valid :: "string \<Rightarrow> bool" where
  "utf8_valid [] = True"
| "utf8_valid (b # bs) =
     (let n = (of_char b :: nat) in
      if n < 0x80 then utf8_valid bs
      else if 0xC2 \<le> n \<and> n \<le> 0xDF then
        (case bs of c1 # r \<Rightarrow> utf8_cont c1 \<and> utf8_valid r | _ \<Rightarrow> False)
      else if 0xE0 \<le> n \<and> n \<le> 0xEF then
        (case bs of c1 # c2 # r \<Rightarrow> utf8_second3 n c1 \<and> utf8_cont c2 \<and> utf8_valid r | _ \<Rightarrow> False)
      else if 0xF0 \<le> n \<and> n \<le> 0xF4 then
        (case bs of c1 # c2 # c3 # r \<Rightarrow>
           utf8_second4 n c1 \<and> utf8_cont c2 \<and> utf8_cont c3 \<and> utf8_valid r | _ \<Rightarrow> False)
      else False)"

definition decode :: "string \<Rightarrow> exn + string" where
  "decode bs = (if utf8_valid bs then Inr bs else Inl UnicodeDecodeError)"

section \<open>The controllers\<close>

text \<open>The fields \<^verbatim>\<open>_proc\<close>, \<^verbatim>\<open>_monitor\<close> and \<^verbatim>\<open>_logger\<close> that both controllers have.\<close>

record ctrl =
  proc :: "nat option"
  monitor :: "nat option"
  logger :: string

record IBC = ctrl +
  twsVersion :: pyval
  gateway :: pyval
  tradingMode :: pyval
  twsPath :: pyval
  twsSettingsPath :: pyval
  ibcPath :: pyval
  ibcIni :: pyval
  javaPath :: pyval
  userid :: pyval
  password :: pyval
  fixuserid :: pyval
  fixpassword :: pyval

text \<open>\<^verbatim>\<open>IBC._Args\<close>: key, default, Unix flag, Windows flag.\<close>

definition IBC_Args :: "(string \<times> pyval \<times> string \<times> string) list" where
  "IBC_Args =
    [(''twsVersion'', PNone, '''', ''''),
     (''gateway'', PNone, ''--gateway'', ''/Gateway''),
     (''tradingMode'', PNone, ''--mode='', ''/Mode:''),
     (''twsPath'', PNone, ''--tws-path='', ''/TwsPath:''),
     (''twsSettingsPath'', PNone, ''--tws-settings-path='', ''''),
     (''ibcPath'', PNone, ''--ibc-path='', ''/IbcPath:''),
     (''ibcIni'', PNone, ''--ibc-ini='', ''/Config:''),
     (''javaPath'', PNone, ''--java-path='', ''/JavaPath:''),
     (''userid'', PNone, ''--user='', ''/User:''),
     (''password'', PNone, ''--pw='', ''/PW:''),
     (''fixuserid'', PNone, ''--fix-user='', ''/FIXUser:''),
     (''fixpassword'', PNone, ''--fix-pw='', ''/FIXPW:'')]"

text \<open>
  Modelled from the spec: \<^verbatim>\<open>Object.dict()\<close> of \<^verbatim>\<open>ib_insync/objects.py\<close> is not part of
  the module; it gives the object's fields under their names, in the order of the class's
  \<^verbatim>\<open>defaults\<close>, which \<^verbatim>\<open>IBC\<close> builds from \<^verbatim>\<open>_Args\<close>.
\<close>

definition IBC_dict :: "IBC \<Rightarrow> (string \<times> pyval) list" where
  "IBC_dict c =
    [(''twsVersion'', twsVersion c),
     (''gateway'', gateway c),
     (''tradingMode'', tradingMode c),
     (''twsPath'', twsPath c),
     (''twsSettingsPath'', twsSettingsPath c),
     (''ibcPath'', ibcPath c),
     (''ibcIni'', ibcIni c),
     (''javaPath'', javaPath c),
     (''userid'', userid c),
     (''password'', password c),
     (''fixuserid'', fixuserid c),
     (''fixpassword'', fixpassword c)]"

text \<open>
  \<^verbatim>\<open>IBC.__init__\<close>, applied to the object as \<^verbatim>\<open>Object.__init__\<close> has filled it from
  the defaults and the caller's arguments.
\<close>

definition IBC_init :: "bool \<Rightarrow> IBC \<Rightarrow> IBC" where
  "IBC_init w32 c =
     (let c1 = (if \<not> truthy (ibcPath c)
                then c\<lparr>ibcPath := PStr (if \<not> w32 then ''/opt/ibc'' else ''C:'' @ [CHR 0x5C] @ ''IBC'')\<rparr>
                else c)
      in c1\<lparr>proc := None, monitor := None, logger := ''ib_insync.IBC''\<rparr>)"

text \<open>The loop of \<^verbatim>\<open>IBC.startAsync\<close> that appends to the list \<^verbatim>\<open>l\<close>.\<close>

fun IBC_args_loop :: "bool \<Rightarrow> (string \<times> pyval) list \<Rightarrow> string list \<Rightarrow> exn + string list" where
  "IBC_args_loop w32 [] l = Inr l"
| "IBC_args_loop w32 ((k, v) # kvs) l =
     (case map_of IBC_Args k of
        None \<Rightarrow> Inl KeyError
      | Some (d, unix, win) \<Rightarrow>
          (let arg = (if w32 then win else unix) in
           IBC_args_loop w32 kvs
             (if truthy v then
                (if endswith arg ''='' \<or> endswith arg '':'' then l @ [arg @ py_str v]
                 else if arg \<noteq> [] then l @ [arg]
                 else l @ [py_str v])
              else l)))"

definition IBC_script :: "bool \<Rightarrow> IBC \<Rightarrow> string" where
  "IBC_script w32 c =
     (if w32 then py_str (ibcPath c) @ [CHR 0x5C] @ ''scripts'' @ [CHR 0x5C] @ ''StartIBC.bat''
      else py_str (ibcPath c) @ ''/scripts/ibcstart.sh'')"

text \<open>The shell command of \<^verbatim>\<open>IBC.startAsync\<close>.\<close>

definition IBC_cmd :: "bool \<Rightarrow> IBC \<Rightarrow> exn + string" where
  "IBC_cmd w32 c =
     (case IBC_args_loop w32 (IBC_dict c) [IBC_script w32 c] of
        Inl e \<Rightarrow> Inl e
      | Inr l \<Rightarrow> Inr (join_space l))"

text \<open>
  The command as the specification words it: the script path, then for each row of the
  table, in the table's order, no token when the configured value is empty, the flag
  followed by the value when the platform's flag ends in \<open>=\<close> or \<open>:\<close>, and a bare token
  otherwise (the flag, or the value when the platform has no flag for the row), all joined
  by single spaces.
\<close>

definition spec_token :: "string \<Rightarrow> pyval \<Rightarrow> string list" where
  "spec_token flag v =
     (if \<not> truthy v then []
      else if flag \<noteq> [] \<and> (last flag = CHR ''='' \<or> last flag = CHR '':'') then [flag @ py_str v]
      else if flag \<noteq> [] then [flag]
      else [py_str v])"

definition spec_value :: "IBC \<Rightarrow> string \<Rightarrow> pyval" where
  "spec_value c k = (case map_of (IBC_dict c) k of Some v \<Rightarrow> v | None \<Rightarrow> PNone)"

definition spec_cmd :: "bool \<Rightarrow> IBC \<Rightarrow> string" where
  "spec_cmd w32 c =
     join_space (IBC_script w32 c #
       concat (map (\<lambda>(k, d, unix, win). spec_token (if w32 then win else unix) (spec_value c k))
                 IBC_Args))"

text \<open>\<^verbatim>\<open>IBC.startAsync\<close>.\<close>

definition IBC_startAsync :: "IBC \<Rightarrow> world \<Rightarrow> (IBC \<times> world) outcome" where
  "IBC_startAsync c s =
     (case proc c of
        Some p \<Rightarrow> Returns (c, s)
      | None \<Rightarrow>
          (let s1 = log_msg (logger c) INFO ''Starting'' s in
           case IBC_cmd (win32 s1) c of
             Inl e \<Rightarrow> Raises e (c, s1)
           | Inr cmd \<Rightarrow>
               (let (pid, s2) = create_subprocess_shell cmd (environ s1) s1;
                    c1 = c\<lparr>proc := Some pid\<rparr>;
                    (tid, s3) = ensure_future Controller_monitorAsync s2
                in Returns (c1\<lparr>monitor := Some tid\<rparr>, s3))))"

record IBController = ctrl +
  APP :: string
  TWS_MAJOR_VRSN :: string
  TRADING_MODE :: string
  IBC_INI :: string
  IBC_PATH :: string
  TWS_PATH :: string
  LOG_PATH :: string
  TWSUSERID :: string
  TWSPASSWORD :: string
  JAVA_PATH :: string
  TWS_CONFIG_PATH :: string

text \<open>
  Modelled from the spec: \<^verbatim>\<open>Object.dict()\<close> and \<^verbatim>\<open>Object.update(**d)\<close> of
  \<^verbatim>\<open>ib_insync/objects.py\<close> are not part of the module; the first gives the fields under
  their names in the order of \<^verbatim>\<open>defaults\<close>, the second sets each named field.
\<close>

definition IBController_dict :: "IBController \<Rightarrow> (string \<times> string) list" where
  "IBController_dict c =
    [(''APP'', APP c),
     (''TWS_MAJOR_VRSN'', TWS_MAJOR_VRSN c),
     (''TRADING_MODE'', TRADING_MODE c),
     (''IBC_INI'', IBC_INI c),
     (''IBC_PATH'', IBC_PATH c),
     (''TWS_PATH'', TWS_PATH c),
     (''LOG_PATH'', LOG_PATH c),
     (''TWSUSERID'', TWSUSERID c),
     (''TWSPASSWORD'', TWSPASSWORD c),
     (''JAVA_PATH'', JAVA_PATH c),
     (''TWS_CONFIG_PATH'', TWS_CONFIG_PATH c)]"

definition IBController_setattr :: "string \<times> string \<Rightarrow> IBController \<Rightarrow> IBController" where
  "IBController_setattr kv c =
     (let k = fst kv; v = snd kv in
      if k = ''APP'' then c\<lparr>APP := v\<rparr>
      else if k = ''TWS_MAJOR_VRSN'' then c\<lparr>TWS_MAJOR_VRSN := v\<rparr>
      else if k = ''TRADING_MODE'' then c\<lparr>TRADING_MODE := v\<rparr>
      else if k = ''IBC_INI'' then c\<lparr>IBC_INI := v\<rparr>
      else if k = ''IBC_PATH'' then c\<lparr>IBC_PATH := v\<rparr>
      else if k = ''TWS_PATH'' then c\<lparr>TWS_PATH := v\<rparr>
      else if k = ''LOG_PATH'' then c\<lparr>LOG_PATH := v\<rparr>
      else if k = ''TWSUSERID'' then c\<lparr>TWSUSERID := v\<rparr>
      else if k = ''TWSPASSWORD'' then c\<lparr>TWSPASSWORD := v\<rparr>
      else if k = ''JAVA_PATH'' then c\<lparr>JAVA_PATH := v\<rparr>
      else if k = ''TWS_CONFIG_PATH'' then c\<lparr>TWS_CONFIG_PATH := v\<rparr>
      else c)"

definition IBController_update :: "IBController \<Rightarrow> (string \<times> string) list \<Rightarrow> IBController" where
  "IBController_update c d = fold IBController_setattr d c"

text \<open>\<^verbatim>\<open>d[k] = v\<close> for a key that \<^verbatim>\<open>d\<close> has.\<close>

definition dict_set :: "(string \<times> string) list \<Rightarrow> string \<Rightarrow> string \<Rightarrow> (string \<times> string) list" where
  "dict_set d k v = map (\<lambda>kv. if fst kv = k then (k, v) else kv) d"

text \<open>The part of \<^verbatim>\<open>IBController.startAsync\<close> under \<^verbatim>\<open># expand paths\<close>, up to the update.\<close>

definition IBController_expand :: "world \<Rightarrow> IBController \<Rightarrow> exn + (string \<times> string) list" where
  "IBController_expand s c =
     (let d = map (\<lambda>kv. if endswith (fst kv) ''_PATH'' \<or> endswith (fst kv) ''_INI''
                         then (fst kv, expanduser s (snd kv)) else kv)
                (IBController_dict c) in
      case map_of d ''TWS_CONFIG_PATH'' of
        None \<Rightarrow> Inl KeyError
      | Some p \<Rightarrow>
          if p = [] then
            (case map_of d ''TWS_PATH'' of
               None \<Rightarrow> Inl KeyError
             | Some t \<Rightarrow> Inr (dict_set d ''TWS_CONFIG_PATH'' t))
          else Inr d)"

text \<open>\<^verbatim>\<open>IBController.startAsync\<close>.\<close>

definition IBController_startAsync :: "IBController \<Rightarrow> world \<Rightarrow> (IBController \<times> world) outcome" where
  "IBController_startAsync c s =
     (case proc c of
        Some p \<Rightarrow> Returns (c, s)
      | None \<Rightarrow>
          (let s1 = log_msg (logger c) INFO ''Starting'' s in
           case IBController_expand s1 c of
             Inl e \<Rightarrow> Raises e (c, s1)
           | Inr d \<Rightarrow>
               (let c1 = IBController_update c d;
                    ext = (if win32 s1 then ''bat'' else ''sh'') in
                case map_of d ''IBC_PATH'' of
                  None \<Rightarrow> Raises KeyError (c1, s1)
                | Some path \<Rightarrow>
                    (let cmd = path @ ''/Scripts/DisplayBannerAndLaunch.'' @ ext;
                         env = (environ s1) ++ (map_of d);
                         (pid, s2) = create_subprocess_shell cmd env s1;
                         c2 = c1\<lparr>proc := Some pid\<rparr>;
                         (tid, s3) = ensure_future Controller_monitorAsync s2
                     in Returns (c2\<lparr>monitor := Some tid\<rparr>, s3)))))"

text \<open>
  The last three statements of \<^verbatim>\<open>terminateAsync\<close> and of \<^verbatim>\<open>stopAsync\<close>:
  \<^verbatim>\<open>self._proc = None; self._monitor.cancel(); self._monitor = None\<close>.
\<close>

definition clear_proc_and_monitor :: "'a ctrl_scheme \<Rightarrow> world \<Rightarrow> ('a ctrl_scheme \<times> world) outcome" where
  "clear_proc_and_monitor c s =
     (let c1 = c\<lparr>proc := None\<rparr> in
      case monitor c1 of
        None \<Rightarrow> Raises AttributeError (c1, s)
      | Some tid \<Rightarrow> Returns (c1\<lparr>monitor := None\<rparr>, task_cancel tid s))"

text \<open>
  \<^verbatim>\<open>IBC.terminateAsync\<close> and \<^verbatim>\<open>IBController.terminateAsync\<close>, which have the same
  text.
\<close>

definition terminateAsync :: "'a ctrl_scheme \<Rightarrow> world \<Rightarrow> ('a ctrl_scheme \<times> world) outcome" where
  "terminateAsync c s =
     (case proc c of
        None \<Rightarrow> Returns (c, s)
      | Some pid \<Rightarrow>
          (let s1 = log_msg (logger c) INFO ''Terminating'' s in
           case suppress ProcessLookupError (and_then (proc_terminate pid s1) (proc_wait pid)) of
             Returns s2 \<Rightarrow> clear_proc_and_monitor c s2
           | Raises e s2 \<Rightarrow> Raises e (c, s2)
           | Hangs s2 \<Rightarrow> Hangs (c, s2)))"

text \<open>
  \<^verbatim>\<open>IBController.stopAsync\<close>. The first argument is \<^verbatim>\<open>configparser\<close>: what
  \<^verbatim>\<open>getint(section, option)\<close> gives after \<^verbatim>\<open>read_string(txt)\<close>.
\<close>

definition IBController_stopAsync ::
  "(string \<Rightarrow> string \<Rightarrow> string \<Rightarrow> exn + int) \<Rightarrow> IBController \<Rightarrow> world \<Rightarrow> (IBController \<times> world) outcome" where
  "IBController_stopAsync getint c s =
     (case proc c of
        None \<Rightarrow> Returns (c, s)
      | Some pid \<Rightarrow>
          (let s1 = log_msg (logger c) INFO ''Stopping'' s in
           case open_read (IBC_INI c) s1 of
             Inl e \<Rightarrow> Raises e (c, s1)
           | Inr (content, s2) \<Rightarrow>
               (let txt = ''[section]'' @ content in
                case getint txt ''section'' ''IbControllerPort'' of
                  Inl e \<Rightarrow> Raises e (c, s2)
                | Inr contrPort \<Rightarrow>
                    (case and_then (open_connection ''127.0.0.1'' contrPort s2)
                            (\<lambda>s3. proc_wait pid (emit Close_writer (emit Drain (emit (Write_bytes ''STOP'') s3)))) of
                       Returns s4 \<Rightarrow> clear_proc_and_monitor c s4
                     | Raises e s4 \<Rightarrow> Raises e (c, s4)
                     | Hangs s4 \<Rightarrow> Hangs (c, s4)))))"

text \<open>
  What happens while the loop of \<^verbatim>\<open>monitorAsync\<close> awaits \<^verbatim>\<open>readline()\<close>: the stream
  has bytes for the call (up to and including the next newline, or what is left when the
  stream ends before a newline, or nothing at end-of-stream), or the task is cancelled.
\<close>

datatype read = Data string | Cancelled

text \<open>
  The limit of the \<^verbatim>\<open>StreamReader\<close> that \<^verbatim>\<open>create_subprocess_shell\<close> makes:
  \<^verbatim>\<open>2 ** 16\<close> bytes.
\<close>

definition stream_limit :: nat where
  "stream_limit = 65536"

text \<open>The bytes of a line before its newline.\<close>

definition line_content :: "string \<Rightarrow> string" where
  "line_content ch = (if ch \<noteq> [] \<and> last ch = CHR 0x0A then butlast ch else ch)"

text \<open>
  \<^verbatim>\<open>await self._proc.stdout.readline()\<close>: the bytes, empty at end-of-stream;
  \<^verbatim>\<open>ValueError\<close> when the line is longer than the limit; \<^verbatim>\<open>CancelledError\<close> when
  the task is cancelled.
\<close>

fun readline :: "read \<Rightarrow> exn + string" where
  "readline (Data ch) = (if stream_limit < length (line_content ch) then Inl ValueError else Inr ch)"
| "readline Cancelled = Inl CancelledError"

text \<open>
  What the stop and terminate paths do to the object:
  \<^verbatim>\<open>self._proc = None; ...; self._monitor = None\<close>.
\<close>

definition owner_clears :: "'a ctrl_scheme \<Rightarrow> 'a ctrl_scheme" where
  "owner_clears c = c\<lparr>proc := None, monitor := None\<rparr>"

text \<open>
  \<^verbatim>\<open>monitorAsync\<close> of both controllers; \<^verbatim>\<open>IBC\<close> logs at \<^verbatim>\<open>IbcLogLevel\<close>,
  \<^verbatim>\<open>IBController\<close> with \<^verbatim>\<open>info\<close>. The list has one entry for each await of
  \<^verbatim>\<open>readline()\<close>: whether the owner of the object clears the handle during the await, and
  what the await meets. When the list is used up, the next \<^verbatim>\<open>readline()\<close> never completes.
  The object changes only where the owner clears it.
\<close>

fun monitorAsync ::
  "level \<Rightarrow> 'a ctrl_scheme \<Rightarrow> (bool \<times> read) list \<Rightarrow> world \<Rightarrow> ('a ctrl_scheme \<times> world) outcome" where
  "monitorAsync lvl c [] s =
     (case proc c of None \<Rightarrow> Returns (c, s) | Some p \<Rightarrow> Hangs (c, s))"
| "monitorAsync lvl c ((cleared, r) # rest) s =
     (case proc c of
        None \<Rightarrow> Returns (c, s)
      | Some p \<Rightarrow>
          (let c1 = (if cleared then owner_clears c else c) in
           case readline r of
             Inl e \<Rightarrow> Raises e (c1, s)
           | Inr line \<Rightarrow>
               if line = [] then Returns (c1, s)
               else (case decode (strip line) of
                       Inl e \<Rightarrow> Raises e (c1, s)
                     | Inr msg \<Rightarrow> monitorAsync lvl c1 rest (log_msg (logger c1) lvl msg s))))"

definition IbcLogLevel :: level where
  "IbcLogLevel = DEBUG"

definition IBC_monitorAsync :: "IBC \<Rightarrow> (bool \<times> read) list \<Rightarrow> world \<Rightarrow> (IBC \<times> world) outcome" where
  "IBC_monitorAsync = monitorAsync IbcLogLevel"

definition IBController_monitorAsync ::
  "IBController \<Rightarrow> (bool \<times> read) list \<Rightarrow> world \<Rightarrow> (IBController \<times> world) outcome" where
  "IBController_monitorAsync = monitorAsync INFO"

text \<open>
  An await that the loop passes: the handle is not cleared meanwhile, and
  \<^verbatim>\<open>readline()\<close> returns a line, not end-of-stream, that is valid UTF-8 once stripped.
\<close>

fun plain_step :: "bool \<times> read \<Rightarrow> bool" where
  "plain_step (cleared, r) =
     (\<not> cleared \<and>
      (case readline r of Inl e \<Rightarrow> False | Inr line \<Rightarrow> line \<noteq> [] \<and> utf8_valid (strip line)))"

text \<open>The log entries for the lines of some awaits.\<close>

definition forwarded :: "level \<Rightarrow> 'a ctrl_scheme \<Rightarrow> (bool \<times> read) list \<Rightarrow> action list" where
  "forwarded lvl c steps =
     map (\<lambda>st. Log (logger c) lvl (strip (case snd st of Data ch \<Rightarrow> ch | Cancelled \<Rightarrow> []))) steps"

text \<open>A handle is always set together with its monitor task.\<close>

definition ctrl_ok :: "'a ctrl_scheme \<Rightarrow> bool" where
  "ctrl_ok c = (case proc c of None \<Rightarrow> True | Some p \<Rightarrow> monitor c \<noteq> None)"

section \<open>The connection client\<close>

datatype handler = Watchdog_onApiError | Watchdog_onError | User_handler nat

text \<open>
  Modelled from the spec: the class \<^verbatim>\<open>IB\<close> of \<^verbatim>\<open>ib_insync/ib.py\<close> is not part of the
  module. The connection client has a connected flag, the idle timeout armed by
  \<^verbatim>\<open>setTimeout\<close>, the api-error callback of its client and one callback for each event
  name.
\<close>

record IB =
  connected :: bool
  idle_timeout :: "int option"
  apiError :: "handler option"
  callbacks :: "string \<Rightarrow> handler option"

text \<open>\<^verbatim>\<open>IB()\<close>.\<close>

definition IB_new :: IB where
  "IB_new = \<lparr>connected = False, idle_timeout = None, apiError = None, callbacks = (\<lambda>k. None)\<rparr>"

text \<open>\<^verbatim>\<open>ib.setCallback(eventName, callback)\<close>.\<close>

definition setCallback :: "string \<Rightarrow> handler \<Rightarrow> IB \<Rightarrow> IB" where
  "setCallback eventName cb i = i\<lparr>callbacks := (callbacks i)(eventName := Some cb)\<rparr>"

text \<open>
  What the awaited historical-data request does: it completes with bars so many
  milliseconds after it was made, it never completes, or it fails with an error.
\<close>

datatype 'b probe_reply = Reply nat "'b list" | No_reply | Probe_error exn

text \<open>
  \<^verbatim>\<open>asyncio.wait_for(probe, timeout)\<close>, the timeout in seconds: the result of the
  request when it completes before the timeout, its error when it fails, and
  \<^verbatim>\<open>TimeoutError\<close> when it has not completed by the time the timeout fires.
\<close>

fun wait_for :: "'b probe_reply \<Rightarrow> int \<Rightarrow> exn + 'b list" where
  "wait_for (Reply ms bars) timeout = (if int ms < 1000 * timeout then Inr bars else Inl TimeoutError)"
| "wait_for No_reply timeout = Inl TimeoutError"
| "wait_for (Probe_error e) timeout = Inl e"

text \<open>A probe that gives a non-empty result within the 4 seconds.\<close>

fun probe_ok :: "'b probe_reply \<Rightarrow> bool" where
  "probe_ok (Reply ms bars) = (ms < 4000 \<and> bars \<noteq> [])"
| "probe_ok No_reply = False"
| "probe_ok (Probe_error e) = False"

section \<open>The watchdog\<close>

record 'c Watchdog =
  controller :: "'c ctrl_scheme option"
  host :: string
  port :: pyval
  clientId :: int
  connectTimeout :: int
  ib :: "IB option"
  appStartupTime :: int
  appTimeout :: int
  retryDelay :: int
  watcher :: "nat option"

text \<open>\<^verbatim>\<open>Watchdog.defaults\<close>.\<close>

definition Watchdog_defaults :: "'c Watchdog" where
  "Watchdog_defaults =
     \<lparr>controller = None, host = ''127.0.0.1'', port = PStr ''7497'', clientId = 1,
      connectTimeout = 2, ib = None, appStartupTime = 30, appTimeout = 20, retryDelay = 1,
      watcher = None\<rparr>"

definition Watchdog_logger :: string where
  "Watchdog_logger = ''ib_insync.Watchdog''"

text \<open>
  \<^verbatim>\<open>Watchdog.__init__\<close>, applied to the object as \<^verbatim>\<open>Object.__init__\<close> has filled it
  from the defaults and the caller's arguments.
\<close>

definition Watchdog_init :: "'c Watchdog \<Rightarrow> world \<Rightarrow> ('c Watchdog \<times> world) outcome" where
  "Watchdog_init w s =
     (case controller w of
        None \<Rightarrow> Raises AssertionError (w, s)
      | Some c \<Rightarrow>
          if \<not> (0 < appTimeout w \<and> appTimeout w < 60) then Raises AssertionError (w, s)
          else if \<not> (retryDelay w > 0) then Raises AssertionError (w, s)
          else
            (let i = (case ib w of None \<Rightarrow> IB_new | Some i0 \<Rightarrow> i0);
                 i1 = i\<lparr>apiError := Some Watchdog_onApiError\<rparr>;
                 i2 = setCallback ''error'' Watchdog_onError i1;
                 (tid, s1) = ensure_future Watchdog_watchAsync s
             in Returns (w\<lparr>ib := Some i2, watcher := Some tid\<rparr>, s1)))"

text \<open>\<^verbatim>\<open>Watchdog.stop\<close>.\<close>

definition Watchdog_stop :: "'c Watchdog \<Rightarrow> world \<Rightarrow> ('c Watchdog \<times> world) outcome" where
  "Watchdog_stop w s =
     (let s1 = log_msg Watchdog_logger INFO ''Stopping'' s in
      case ib w of
        None \<Rightarrow> Raises AttributeError (w, s1)
      | Some i \<Rightarrow>
          (let w1 = w\<lparr>ib := Some (i\<lparr>connected := False\<rparr>)\<rparr>;
               s2 = emit IB_disconnect s1 in
           case controller w1 of
             None \<Rightarrow> Raises AttributeError (w1, s2)
           | Some c \<Rightarrow>
               map_outcome (\<lambda>cs. (w1\<lparr>controller := Some (fst cs)\<rparr>, snd cs)) (terminateAsync c s2)))"

text \<open>\<^verbatim>\<open>Watchdog.scheduleRestart\<close>.\<close>

definition Watchdog_scheduleRestart :: "'c Watchdog \<Rightarrow> world \<Rightarrow> ('c Watchdog \<times> world) outcome" where
  "Watchdog_scheduleRestart w s =
     (let s1 = log_msg Watchdog_logger INFO (''Schedule restart in '' @ str_int (retryDelay w) @ ''s'') s
      in Returns (w, call_later (retryDelay w) Watchdog_start s1))"

text \<open>\<^verbatim>\<open>self.stop(); self.scheduleRestart()\<close>.\<close>

definition stop_and_restart :: "'c Watchdog \<Rightarrow> world \<Rightarrow> ('c Watchdog \<times> world) outcome" where
  "stop_and_restart w s =
     and_then (Watchdog_stop w s) (\<lambda>ws. Watchdog_scheduleRestart (fst ws) (snd ws))"

text \<open>\<^verbatim>\<open>Watchdog.onApiError\<close>.\<close>

definition Watchdog_onApiError_call :: "'c Watchdog \<Rightarrow> string \<Rightarrow> world \<Rightarrow> ('c Watchdog \<times> world) outcome" where
  "Watchdog_onApiError_call w msg s = stop_and_restart w s"

text \<open>\<^verbatim>\<open>Watchdog.onError\<close>.\<close>

definition Watchdog_onError_call ::
  "'c Watchdog \<Rightarrow> int \<Rightarrow> int \<Rightarrow> string \<Rightarrow> pyval \<Rightarrow> world \<Rightarrow> ('c Watchdog \<times> world) outcome" where
  "Watchdog_onError_call w reqId errorCode errorString contract s =
     (if errorCode = 1100 then
        stop_and_restart w (log_msg Watchdog_logger INFO (''Error 1100: '' @ errorString) s)
      else Returns (w, s))"

text \<open>
  The body of the loop of \<^verbatim>\<open>Watchdog.watchAsync\<close>, run once the idle-timeout event has
  fired. The second argument is what the call \<^verbatim>\<open>self.ib.reqHistoricalDataAsync(...)\<close>
  does: it raises, before the \<^verbatim>\<open>try\<close>, or it gives the request that is then awaited
  inside the \<^verbatim>\<open>try\<close>.
\<close>

definition watchAsync_body ::
  "'c Watchdog \<Rightarrow> exn + 'b probe_reply \<Rightarrow> world \<Rightarrow> ('c Watchdog \<times> world) outcome" where
  "watchAsync_body w req s =
     (case ib w of
        None \<Rightarrow> Raises AttributeError (w, s)
      | Some i \<Rightarrow>
          (case req of
             Inl e \<Rightarrow> Raises e (w, s)
           | Inr reply \<Rightarrow>
               (let s1 = emit (IB_reqHistoricalData ''EURUSD'' [] ''30 S'' ''5 secs'' ''MIDPOINT'' False) s;
                    s2 = emit (Wait_for 4) s1 in
                case wait_for reply 4 of
                  Inr bars \<Rightarrow>
                    if bars = [] then stop_and_restart w (log_msg Watchdog_logger ERROR ''Hard timeout'' s2)
                    else Returns (w\<lparr>ib := Some (i\<lparr>idle_timeout := Some (appTimeout w)\<rparr>)\<rparr>,
                                  emit (IB_setTimeout (appTimeout w)) s2)
                | Inl e \<Rightarrow> stop_and_restart w (log_msg Watchdog_logger ERROR ''Hard timeout'' s2))))"

text \<open>
  \<^verbatim>\<open>Watchdog.watchAsync\<close>: one entry for each firing of the idle-timeout event. With
  no firing left, the loop waits for the event, and does not return.
\<close>

fun watchAsync ::
  "'c Watchdog \<Rightarrow> (exn + 'b probe_reply) list \<Rightarrow> world \<Rightarrow> ('c Watchdog \<times> world) outcome" where
  "watchAsync w [] s = Hangs (w, s)"
| "watchAsync w (req # reqs) s =
     (case watchAsync_body w req s of
        Returns ws \<Rightarrow> watchAsync (fst ws) reqs (snd ws)
      | Raises e ws \<Rightarrow> Raises e ws
      | Hangs ws \<Rightarrow> Hangs ws)"

text \<open>The three calls of a firing at which the probe is answered in time.\<close>

definition probe_and_rearm :: "'c Watchdog \<Rightarrow> action list" where
  "probe_and_rearm w =
     [IB_reqHistoricalData ''EURUSD'' [] ''30 S'' ''5 secs'' ''MIDPOINT'' False, Wait_for 4,
      IB_setTimeout (appTimeout w)]"

text \<open>What \<^verbatim>\<open>__init__\<close> asserts, and that the connection client is set.\<close>

definition Watchdog_ok :: "'c Watchdog \<Rightarrow> bool" where
  "Watchdog_ok w =
     (0 < appTimeout w \<and> appTimeout w < 60 \<and> 0 < retryDelay w \<and> ib w \<noteq> None \<and>
      (case controller w of None \<Rightarrow> False | Some c \<Rightarrow> ctrl_ok c))"

text \<open>The process of the controller, if it has one, is not one that never exits.\<close>

definition can_terminate :: "'c Watchdog \<Rightarrow> world \<Rightarrow> bool" where
  "can_terminate w s =
     (case controller w of
        None \<Rightarrow> True
      | Some c \<Rightarrow> (case proc c of None \<Rightarrow> True | Some pid \<Rightarrow> os_procs s pid \<noteq> Unresponsive))"

section \<open>The module's main program and sample states\<close>

text \<open>\<^verbatim>\<open>ibc = IBC(969, gateway=True, tradingMode='paper')\<close>, on a Unix machine.\<close>

definition main_ibc :: IBC where
  "main_ibc = IBC_init False
     \<lparr>proc = None, monitor = None, logger = [],
      twsVersion = PInt 969, gateway = PBool True, tradingMode = PStr ''paper'',
      twsPath = PNone, twsSettingsPath = PNone, ibcPath = PNone, ibcIni = PNone,
      javaPath = PNone, userid = PNone, password = PNone, fixuserid = PNone,
      fixpassword = PNone\<rparr>"

text \<open>The object that \<^verbatim>\<open>Watchdog(ibc, port=4002)\<close> hands to \<^verbatim>\<open>__init__\<close>.\<close>

definition main_app_args :: "unit IBC_ext Watchdog" where
  "main_app_args = Watchdog_defaults\<lparr>controller := Some main_ibc, port := PInt 4002\<rparr>"

text \<open>A controller whose process 0 is running, read by the monitor task 0.\<close>

definition running_ctrl :: ctrl where
  "running_ctrl = \<lparr>proc = Some 0, monitor = Some 0, logger = ''ib_insync.IBC''\<rparr>"

definition running_world :: world where
  "running_world = world0\<lparr>os_procs := (\<lambda>p. if p = 0 then Running else Exited), next_pid := 1,
                           tasks := [(0, Controller_monitorAsync)], next_tid := 1\<rparr>"

text \<open>The same world, but the process 0 never exits.\<close>

definition stuck_world :: world where
  "stuck_world = running_world\<lparr>os_procs := (\<lambda>p. if p = 0 then Unresponsive else Exited)\<rparr>"

text \<open>A watchdog over that controller, connected, with the default timings.\<close>

definition running_app :: "unit Watchdog" where
  "running_app = Watchdog_defaults\<lparr>controller := Some running_ctrl,
     ib := Some (IB_new\<lparr>connected := True, idle_timeout := Some 20,
                        apiError := Some Watchdog_onApiError,
                        callbacks := (\<lambda>k. if k = ''error'' then Some Watchdog_onError else None)\<rparr>)\<rparr>"

text \<open>The controller of the main program once its process 0 runs.\<close>

definition running_ibc :: IBC where
  "running_ibc = main_ibc\<lparr>proc := Some 0, monitor := Some 0\<rparr>"

text \<open>An \<^verbatim>\<open>IBController\<close> with the defaults of the class, its process 0 running.\<close>

definition running_ibcontroller :: IBController where
  "running_ibcontroller =
     \<lparr>proc = Some 0, monitor = Some 0, logger = ''ib_insync.IBController'',
      APP = ''TWS'', TWS_MAJOR_VRSN = ''969'', TRADING_MODE = ''live'',
      IBC_INI = ''~/IBController/IBController.ini'', IBC_PATH = ''~/IBController'',
      TWS_PATH = ''~/Jts'', LOG_PATH = ''~/IBController/Logs'', TWSUSERID = [],
      TWSPASSWORD = [], JAVA_PATH = [], TWS_CONFIG_PATH = []\<rparr>"

text \<open>A configuration file: an empty line, then the line \<^verbatim>\<open>IbControllerPort=7462\<close>.\<close>

definition sample_ini :: string where
  "sample_ini = CHR 0x0A # ''IbControllerPort=7462'' @ [CHR 0x0A]"

text \<open>
  A world in which the configuration file of that controller exists and the application
  listens on the control port 7462.
\<close>

definition stoppable_world :: world where
  "stoppable_world = running_world\<lparr>
     files := (\<lambda>p. if p = ''~/IBController/IBController.ini'' then Some sample_ini else None),
     listening := (\<lambda>p. p = 7462)\<rparr>"

text \<open>A stand-in for \<^verbatim>\<open>configparser\<close> that knows this one text.\<close>

definition sample_getint :: "string \<Rightarrow> string \<Rightarrow> string \<Rightarrow> exn + int" where
  "sample_getint txt section option =
     (if txt = ''[section]'' @ sample_ini \<and> section = ''section'' \<and> option = ''IbControllerPort''
      then Inr 7462 else Inl (OtherError ''NoOptionError''))"

section \<open>The command line of IBC\<close>

lemma endswith_single: "endswith s [c] = (s \<noteq> [] \<and> last s = c)"
proof (cases s rule: rev_cases)
  case Nil
  then show ?thesis by (simp add: endswith_def)
next
  case (snoc ys y)
  then show ?thesis by (simp add: endswith_def)
qed

text \<open>
  The loop appends, to the list it is given, the tokens of the entries it visits, in the
  order it visits them.
\<close>

lemma IBC_args_loop_tokens:
  "list_all (\<lambda>kv. map_of IBC_Args (fst kv) \<noteq> None) kvs \<Longrightarrow>
   IBC_args_loop w32 kvs l =
     Inr (l @ concat (map (\<lambda>kv. case map_of IBC_Args (fst kv) of
                                   None \<Rightarrow> []
                                 | Some (d, unix, win) \<Rightarrow> spec_token (if w32 then win else unix) (snd kv)) kvs))"
proof (induction kvs arbitrary: l)
  case Nil
  then show ?case by simp
next
  case (Cons kv kvs)
  obtain k v where kv: "kv = (k, v)" by (cases kv)
  from Cons.prems kv obtain d unix win where m: "map_of IBC_Args k = Some (d, unix, win)"
    by (cases "map_of IBC_Args k") auto
  from Cons.prems have rest: "list_all (\<lambda>kv. map_of IBC_Args (fst kv) \<noteq> None) kvs" by simp
  show ?case
    by (simp add: kv m Cons.IH [OF rest] spec_token_def endswith_single Let_def)
qed

lemma IBC_dict_keys: "list_all (\<lambda>kv. map_of IBC_Args (fst kv) \<noteq> None) (IBC_dict c)"
  by (simp add: IBC_dict_def IBC_Args_def)

lemma IBC_dict_tokens:
  "concat (map (\<lambda>kv. case map_of IBC_Args (fst kv) of
                       None \<Rightarrow> []
                     | Some (d, unix, win) \<Rightarrow> spec_token (if w32 then win else unix) (snd kv)) (IBC_dict c))
   = concat (map (\<lambda>(k, d, unix, win). spec_token (if w32 then win else unix) (spec_value c k)) IBC_Args)"
  by (simp add: IBC_dict_def IBC_Args_def spec_value_def)

lemma IBC_cmd_eq: "IBC_cmd w32 c = Inr (spec_cmd w32 c)"
  by (simp add: IBC_cmd_def spec_cmd_def IBC_args_loop_tokens [OF IBC_dict_keys] IBC_dict_tokens)

text \<open>
  Claim C7. On either platform and for every \<^verbatim>\<open>IBC\<close> object, the loop of
  \<^verbatim>\<open>IBC.startAsync\<close> raises nothing and builds the command that the specification
  describes: the script path, then, row by row in the order of the table \<^verbatim>\<open>_Args\<close>,
  nothing for a value that is \<^verbatim>\<open>None\<close> or empty, the flag immediately followed by the
  value when the platform's flag ends in \<open>=\<close> or \<open>:\<close>, and otherwise one bare token (the
  flag, or the value itself where the platform's flag is empty); the tokens are joined
  by single spaces.
\<close>

theorem IBC_cmd_refines_spec: "IBC_cmd w32 c = Inr (spec_cmd w32 c)"
  by (rule IBC_cmd_eq)

text \<open>The command of the module's main program.\<close>

lemma main_ibc_cmd:
  "IBC_cmd False main_ibc =
     Inr ''/opt/ibc/scripts/ibcstart.sh 969 --gateway --mode=paper --ibc-path=/opt/ibc''"
  by (simp add: IBC_cmd_def main_ibc_def IBC_init_def IBC_dict_def IBC_Args_def IBC_script_def
      endswith_def str_int_def Let_def)

section \<open>Starting a controller\<close>

lemma IBC_startAsync_no_op: "proc c = Some p \<Longrightarrow> IBC_startAsync c s = Returns (c, s)"
  by (simp add: IBC_startAsync_def)

lemma IBController_startAsync_no_op: "proc c = Some p \<Longrightarrow> IBController_startAsync c s = Returns (c, s)"
  by (simp add: IBController_startAsync_def)

text \<open>
  Claim C5. When the controller holds a process handle, \<^verbatim>\<open>startAsync\<close> of \<^verbatim>\<open>IBC\<close>
  and of \<^verbatim>\<open>IBController\<close> returns with the object and the world exactly as they
  were: nothing is logged, no process is spawned, no task is created, and the one handle
  stays.
\<close>

theorem startAsync_no_op_when_started:
  "(proc c = Some p \<longrightarrow> IBC_startAsync c s = Returns (c, s)) \<and>
   (proc c' = Some p' \<longrightarrow> IBController_startAsync c' s = Returns (c', s))"
  by (simp add: IBC_startAsync_no_op IBController_startAsync_no_op)

theorem startAsync_no_op_when_started_witness:
  "proc running_ibc = Some 0 \<and> IBC_startAsync running_ibc running_world = Returns (running_ibc, running_world) \<and>
   proc running_ibcontroller = Some 0 \<and>
   IBController_startAsync running_ibcontroller running_world = Returns (running_ibcontroller, running_world)"
proof -
  have h1: "proc running_ibc = Some 0" by (simp add: running_ibc_def)
  have h2: "proc running_ibcontroller = Some 0" by (simp add: running_ibcontroller_def)
  note t = startAsync_no_op_when_started [of running_ibc 0 running_world running_ibcontroller 0]
  from h1 h2 t [THEN conjunct1, THEN mp, OF h1] t [THEN conjunct2, THEN mp, OF h2]
  show ?thesis by simp
qed

section \<open>Terminating a controller\<close>

lemma terminateAsync_no_handle: "proc c = None \<Longrightarrow> terminateAsync c s = Returns (c, s)"
  by (simp add: terminateAsync_def)

lemma terminateAsync_running:
  "proc c = Some pid \<Longrightarrow> monitor c = Some tid \<Longrightarrow> os_procs s pid = Running \<Longrightarrow>
   terminateAsync c s =
     Returns (c\<lparr>proc := None, monitor := None\<rparr>,
              s\<lparr>os_procs := (os_procs s)(pid := Exited),
                tasks := filter (\<lambda>t. fst t \<noteq> tid) (tasks s),
                trace := trace s @ [Log (logger c) INFO ''Terminating'', Proc_terminate pid,
                                    Proc_wait pid, Task_cancel tid]\<rparr>)"
  by (simp add: terminateAsync_def proc_terminate_def proc_wait_def clear_proc_and_monitor_def
      task_cancel_def log_msg_def emit_def Let_def)

lemma terminateAsync_exited:
  "proc c = Some pid \<Longrightarrow> monitor c = Some tid \<Longrightarrow> os_procs s pid = Exited \<Longrightarrow>
   terminateAsync c s =
     Returns (c\<lparr>proc := None, monitor := None\<rparr>,
              s\<lparr>tasks := filter (\<lambda>t. fst t \<noteq> tid) (tasks s),
                trace := trace s @ [Log (logger c) INFO ''Terminating'', Task_cancel tid]\<rparr>)"
  by (simp add: terminateAsync_def proc_terminate_def proc_wait_def clear_proc_and_monitor_def
      task_cancel_def log_msg_def emit_def Let_def)

text \<open>A process that never exits keeps \<^verbatim>\<open>terminateAsync\<close> waiting, the handle still set.\<close>

lemma terminateAsync_unresponsive:
  "proc c = Some pid \<Longrightarrow> os_procs s pid = Unresponsive \<Longrightarrow>
   terminateAsync c s =
     Hangs (c, s\<lparr>trace := trace s @ [Log (logger c) INFO ''Terminating'', Proc_terminate pid,
                                      Proc_wait pid]\<rparr>)"
  by (simp add: terminateAsync_def proc_terminate_def proc_wait_def
      log_msg_def emit_def Let_def)

lemma terminateAsync_returns_cleared:
  "terminateAsync c s = Returns (c', s') \<Longrightarrow> proc c' = None"
  by (auto simp add: terminateAsync_def proc_terminate_def proc_wait_def clear_proc_and_monitor_def
      Let_def split: option.splits outcome.splits pstatus.splits if_splits)

lemma terminateAsync_again:
  "terminateAsync c s = Returns (c', s') \<Longrightarrow> terminateAsync c' s' = Returns (c', s')"
  by (rule terminateAsync_no_handle) (rule terminateAsync_returns_cleared)

text \<open>
  Claim C6. \<^verbatim>\<open>terminateAsync\<close> of either controller: without a handle it returns and
  changes nothing. With a handle and its monitor task, when the process runs it logs,
  sends the terminate signal, awaits the exit of the process, clears the handle and
  cancels and clears the monitor task. When the process has already exited, the signal
  call raises \<^verbatim>\<open>ProcessLookupError\<close>, which is suppressed: the call still returns,
  with the handle cleared and the monitor cancelled (the wait, inside the suppressed
  block, is skipped: the process has exited). Whenever the call returns the handle is
  cleared, so that a second call returns with no effect.
\<close>

theorem terminateAsync_idempotent:
  "(proc c = None \<longrightarrow> terminateAsync c s = Returns (c, s)) \<and>
   (proc c = Some pid \<and> monitor c = Some tid \<and> os_procs s pid = Running \<longrightarrow>
      terminateAsync c s =
        Returns (c\<lparr>proc := None, monitor := None\<rparr>,
                 s\<lparr>os_procs := (os_procs s)(pid := Exited),
                   tasks := filter (\<lambda>t. fst t \<noteq> tid) (tasks s),
                   trace := trace s @ [Log (logger c) INFO ''Terminating'', Proc_terminate pid,
                                       Proc_wait pid, Task_cancel tid]\<rparr>)) \<and>
   (proc c = Some pid \<and> monitor c = Some tid \<and> os_procs s pid = Exited \<longrightarrow>
      terminateAsync c s =
        Returns (c\<lparr>proc := None, monitor := None\<rparr>,
                 s\<lparr>tasks := filter (\<lambda>t. fst t \<noteq> tid) (tasks s),
                   trace := trace s @ [Log (logger c) INFO ''Terminating'', Task_cancel tid]\<rparr>)) \<and>
   (terminateAsync c s = Returns (c', s') \<longrightarrow>
      proc c' = None \<and> terminateAsync c' s' = Returns (c', s'))"
proof (intro conjI impI)
  assume "proc c = None"
  then show "terminateAsync c s = Returns (c, s)" by (rule terminateAsync_no_handle)
next
  assume "proc c = Some pid \<and> monitor c = Some tid \<and> os_procs s pid = Running"
  then show "terminateAsync c s =
        Returns (c\<lparr>proc := None, monitor := None\<rparr>,
                 s\<lparr>os_procs := (os_procs s)(pid := Exited),
                   tasks := filter (\<lambda>t. fst t \<noteq> tid) (tasks s),
                   trace := trace s @ [Log (logger c) INFO ''Terminating'', Proc_terminate pid,
                                       Proc_wait pid, Task_cancel tid]\<rparr>)"
    by (simp add: terminateAsync_running)
next
  assume "proc c = Some pid \<and> monitor c = Some tid \<and> os_procs s pid = Exited"
  then show "terminateAsync c s =
        Returns (c\<lparr>proc := None, monitor := None\<rparr>,
                 s\<lparr>tasks := filter (\<lambda>t. fst t \<noteq> tid) (tasks s),
                   trace := trace s @ [Log (logger c) INFO ''Terminating'', Task_cancel tid]\<rparr>)"
    by (simp add: terminateAsync_exited)
next
  assume "terminateAsync c s = Returns (c', s')"
  then show "proc c' = None" by (rule terminateAsync_returns_cleared)
next
  assume "terminateAsync c s = Returns (c', s')"
  then show "terminateAsync c' s' = Returns (c', s')" by (rule terminateAsync_again)
qed

theorem terminateAsync_idempotent_witness:
  "proc running_ctrl = Some 0 \<and> monitor running_ctrl = Some 0 \<and> os_procs running_world 0 = Running \<and>
   terminateAsync running_ctrl running_world =
     Returns (running_ctrl\<lparr>proc := None, monitor := None\<rparr>,
              running_world\<lparr>os_procs := (os_procs running_world)(0 := Exited),
                tasks := filter (\<lambda>t. fst t \<noteq> 0) (tasks running_world),
                trace := trace running_world @ [Log (logger running_ctrl) INFO ''Terminating'',
                          Proc_terminate 0, Proc_wait 0, Task_cancel 0]\<rparr>) \<and>
   terminateAsync (running_ctrl\<lparr>proc := None, monitor := None\<rparr>)
       (running_world\<lparr>os_procs := (os_procs running_world)(0 := Exited),
                tasks := filter (\<lambda>t. fst t \<noteq> 0) (tasks running_world),
                trace := trace running_world @ [Log (logger running_ctrl) INFO ''Terminating'',
                          Proc_terminate 0, Proc_wait 0, Task_cancel 0]\<rparr>) =
     Returns (running_ctrl\<lparr>proc := None, monitor := None\<rparr>,
              running_world\<lparr>os_procs := (os_procs running_world)(0 := Exited),
                tasks := filter (\<lambda>t. fst t \<noteq> 0) (tasks running_world),
                trace := trace running_world @ [Log (logger running_ctrl) INFO ''Terminating'',
                          Proc_terminate 0, Proc_wait 0, Task_cancel 0]\<rparr>)"
proof -
  let ?c = "running_ctrl\<lparr>proc := None, monitor := None\<rparr>"
  let ?s = "running_world\<lparr>os_procs := (os_procs running_world)(0 := Exited),
                tasks := filter (\<lambda>t. fst t \<noteq> 0) (tasks running_world),
                trace := trace running_world @ [Log (logger running_ctrl) INFO ''Terminating'',
                          Proc_terminate 0, Proc_wait 0, Task_cancel 0]\<rparr>"
  have h: "proc running_ctrl = Some 0 \<and> monitor running_ctrl = Some 0 \<and> os_procs running_world 0 = Running"
    by (simp add: running_ctrl_def running_world_def world0_def)
  note t = terminateAsync_idempotent [of running_ctrl running_world 0 0 ?c ?s]
  have r: "terminateAsync running_ctrl running_world = Returns (?c, ?s)"
    by (rule t [THEN conjunct2, THEN conjunct1, THEN mp, OF h])
  have "terminateAsync ?c ?s = Returns (?c, ?s)"
    by (rule t [THEN conjunct2, THEN conjunct2, THEN conjunct2, THEN mp, OF r, THEN conjunct2])
  with h r show ?thesis by simp
qed

section \<open>The graceful stop of IBController\<close>

lemma stopAsync_no_handle: "proc c = None \<Longrightarrow> IBController_stopAsync getint c s = Returns (c, s)"
  by (simp add: IBController_stopAsync_def)

lemma stopAsync_sequence:
  assumes "proc c = Some pid" and "monitor c = Some tid"
    and "files s (IBC_INI c) = Some content"
    and "getint (''[section]'' @ content) ''section'' ''IbControllerPort'' = Inr contrPort"
    and "listening s contrPort" and "os_procs s pid \<noteq> Unresponsive"
  shows "IBController_stopAsync getint c s =
     Returns (c\<lparr>proc := None, monitor := None\<rparr>,
              s\<lparr>os_procs := (os_procs s)(pid := Exited),
                tasks := filter (\<lambda>t. fst t \<noteq> tid) (tasks s),
                trace := trace s @ [Log (logger c) INFO ''Stopping'', Open_file (IBC_INI c),
                          Open_connection ''127.0.0.1'' contrPort, Write_bytes ''STOP'', Drain,
                          Close_writer, Proc_wait pid, Task_cancel tid]\<rparr>)"
proof (cases "os_procs s pid")
  case Running
  with assms show ?thesis
    by (simp add: IBController_stopAsync_def open_read_def open_connection_def proc_wait_def
        clear_proc_and_monitor_def task_cancel_def log_msg_def emit_def Let_def)
next
  case Unresponsive
  with assms show ?thesis by simp
next
  case Exited
  then have "(os_procs s)(pid := Exited) = os_procs s" by auto
  with Exited assms show ?thesis
    by (simp add: IBController_stopAsync_def open_read_def open_connection_def proc_wait_def
        clear_proc_and_monitor_def task_cancel_def log_msg_def emit_def Let_def)
qed

text \<open>Until everything before has succeeded, the handle and the monitor stay as they were.\<close>

lemma stopAsync_keeps_handle_unless_returned:
  "ctrl_ok c \<Longrightarrow> \<not> returned (IBController_stopAsync getint c s) \<Longrightarrow>
   fst (state_of (IBController_stopAsync getint c s)) = c"
  by (auto simp add: IBController_stopAsync_def open_read_def open_connection_def proc_wait_def
      clear_proc_and_monitor_def ctrl_ok_def Let_def
      split: option.splits sum.splits pstatus.splits if_splits)

text \<open>
  Claim C8. With a handle and its monitor task set, a readable configuration file, a
  control port that \<^verbatim>\<open>configparser\<close> finds in the text made of \<^verbatim>\<open>[section]\<close> followed
  by the file's content, a listener on that port of localhost and a process that exits,
  \<^verbatim>\<open>stopAsync\<close> does, in this order and nothing else: log, read the file, connect to
  127.0.0.1 on the port, write the four bytes \<^verbatim>\<open>STOP\<close>, drain, close, await the exit of
  the process, and then clear the handle and cancel and clear the monitor. When the call
  does not return (a step raised, or the process never exits), the object is unchanged:
  handle and monitor are cleared only after the wait.
\<close>

theorem stopAsync_graceful_shutdown:
  "(proc c = Some pid \<and> monitor c = Some tid \<and> files s (IBC_INI c) = Some content \<and>
    getint (''[section]'' @ content) ''section'' ''IbControllerPort'' = Inr contrPort \<and>
    listening s contrPort \<and> os_procs s pid \<noteq> Unresponsive \<longrightarrow>
      IBController_stopAsync getint c s =
        Returns (c\<lparr>proc := None, monitor := None\<rparr>,
                 s\<lparr>os_procs := (os_procs s)(pid := Exited),
                   tasks := filter (\<lambda>t. fst t \<noteq> tid) (tasks s),
                   trace := trace s @ [Log (logger c) INFO ''Stopping'', Open_file (IBC_INI c),
                             Open_connection ''127.0.0.1'' contrPort, Write_bytes ''STOP'', Drain,
                             Close_writer, Proc_wait pid, Task_cancel tid]\<rparr>) \<and>
      length ''STOP'' = 4) \<and>
   (ctrl_ok c \<and> \<not> returned (IBController_stopAsync getint c s) \<longrightarrow>
      fst (state_of (IBController_stopAsync getint c s)) = c)"
proof (intro conjI impI)
  assume h: "proc c = Some pid \<and> monitor c = Some tid \<and> files s (IBC_INI c) = Some content \<and>
    getint (''[section]'' @ content) ''section'' ''IbControllerPort'' = Inr contrPort \<and>
    listening s contrPort \<and> os_procs s pid \<noteq> Unresponsive"
  then show "IBController_stopAsync getint c s =
        Returns (c\<lparr>proc := None, monitor := None\<rparr>,
                 s\<lparr>os_procs := (os_procs s)(pid := Exited),
                   tasks := filter (\<lambda>t. fst t \<noteq> tid) (tasks s),
                   trace := trace s @ [Log (logger c) INFO ''Stopping'', Open_file (IBC_INI c),
                             Open_connection ''127.0.0.1'' contrPort, Write_bytes ''STOP'', Drain,
                             Close_writer, Proc_wait pid, Task_cancel tid]\<rparr>)"
    by (elim conjE) (rule stopAsync_sequence)
  show "length ''STOP'' = 4" by simp
next
  assume "ctrl_ok c \<and> \<not> returned (IBController_stopAsync getint c s)"
  then show "fst (state_of (IBController_stopAsync getint c s)) = c"
    by (simp add: stopAsync_keeps_handle_unless_returned)
qed

theorem stopAsync_graceful_shutdown_witness:
  "proc running_ibcontroller = Some 0 \<and> monitor running_ibcontroller = Some 0 \<and>
   files stoppable_world (IBC_INI running_ibcontroller) = Some sample_ini \<and>
   sample_getint (''[section]'' @ sample_ini) ''section'' ''IbControllerPort'' = Inr 7462 \<and>
   listening stoppable_world 7462 \<and> os_procs stoppable_world 0 \<noteq> Unresponsive \<and>
   IBController_stopAsync sample_getint running_ibcontroller stoppable_world =
     Returns (running_ibcontroller\<lparr>proc := None, monitor := None\<rparr>,
              stoppable_world\<lparr>os_procs := (os_procs stoppable_world)(0 := Exited),
                tasks := filter (\<lambda>t. fst t \<noteq> 0) (tasks stoppable_world),
                trace := trace stoppable_world @
                  [Log (logger running_ibcontroller) INFO ''Stopping'',
                   Open_file (IBC_INI running_ibcontroller),
                   Open_connection ''127.0.0.1'' 7462, Write_bytes ''STOP'', Drain,
                   Close_writer, Proc_wait 0, Task_cancel 0]\<rparr>) \<and>
   ctrl_ok running_ibcontroller \<and>
   \<not> returned (IBController_stopAsync sample_getint running_ibcontroller running_world) \<and>
   fst (state_of (IBController_stopAsync sample_getint running_ibcontroller running_world)) =
     running_ibcontroller"
proof -
  have h: "proc running_ibcontroller = Some 0 \<and> monitor running_ibcontroller = Some 0 \<and>
   files stoppable_world (IBC_INI running_ibcontroller) = Some sample_ini \<and>
   sample_getint (''[section]'' @ sample_ini) ''section'' ''IbControllerPort'' = Inr 7462 \<and>
   listening stoppable_world 7462 \<and> os_procs stoppable_world 0 \<noteq> Unresponsive"
    by (simp add: running_ibcontroller_def stoppable_world_def running_world_def world0_def
        sample_getint_def)
  have k: "ctrl_ok running_ibcontroller \<and>
      \<not> returned (IBController_stopAsync sample_getint running_ibcontroller running_world)"
    by (simp add: running_ibcontroller_def running_world_def world0_def ctrl_ok_def
        IBController_stopAsync_def open_read_def Let_def log_msg_def emit_def)
  note t1 = stopAsync_graceful_shutdown [of running_ibcontroller 0 0 stoppable_world
      sample_ini sample_getint 7462]
  note t2 = stopAsync_graceful_shutdown [of running_ibcontroller 0 0 running_world
      sample_ini sample_getint 7462]
  from h k t1 [THEN conjunct1, THEN mp, OF h, THEN conjunct1] t2 [THEN conjunct2, THEN mp, OF k]
  show ?thesis by simp
qed

section \<open>The output monitor\<close>

lemma monitorAsync_no_handle: "proc c = None \<Longrightarrow> monitorAsync lvl c steps s = Returns (c, s)"
proof (cases steps)
  case Nil
  assume "proc c = None"
  with Nil show ?thesis by simp
next
  case (Cons st rest)
  assume "proc c = None"
  with Cons show ?thesis by (cases st) simp
qed

lemma readline_Inr: "readline r = Inr line \<Longrightarrow> r = Data line"
  by (cases r) (auto split: if_splits)

lemma readline_eof: "readline (Data []) = Inr []"
  by (simp add: line_content_def)

lemma forwarded_Nil [simp]: "forwarded lvl c [] = []"
  by (simp add: forwarded_def)

lemma forwarded_Cons:
  "forwarded lvl c ((cl, Data ch) # steps) = Log (logger c) lvl (strip ch) # forwarded lvl c steps"
  by (simp add: forwarded_def)

lemma forwarded_snoc:
  "forwarded lvl c (steps @ [(cl, Data ch)]) = forwarded lvl c steps @ [Log (logger c) lvl (strip ch)]"
  by (simp add: forwarded_def)

lemma forwarded_owner_clears [simp]: "forwarded lvl (owner_clears c) = forwarded lvl c"
  by (rule ext) (simp add: forwarded_def owner_clears_def)

text \<open>The loop passes the awaits that bring a good line, logging each line.\<close>

lemma monitorAsync_plain_prefix:
  "proc c = Some p \<Longrightarrow> list_all plain_step pre \<Longrightarrow>
   monitorAsync lvl c (pre @ rest) s =
     monitorAsync lvl c rest (s\<lparr>trace := trace s @ forwarded lvl c pre\<rparr>)"
proof (induction pre arbitrary: s)
  case Nil
  then show ?case by simp
next
  case (Cons st pre)
  obtain cl r where st: "st = (cl, r)" by (cases st)
  from Cons.prems(2) st obtain line where ncl: "\<not> cl" and rl: "readline r = Inr line"
    and ne: "line \<noteq> []" and v: "utf8_valid (strip line)"
    by (cases "readline r") auto
  from rl have r: "r = Data line" by (rule readline_Inr)
  from Cons.prems(2) have pre: "list_all plain_step pre" by simp
  have "monitorAsync lvl c ((st # pre) @ rest) s =
      monitorAsync lvl c (pre @ rest) (log_msg (logger c) lvl (strip line) s)"
    using Cons.prems(1) st ncl rl ne v by (simp add: decode_def)
  also have "\<dots> = monitorAsync lvl c rest
      ((log_msg (logger c) lvl (strip line) s)
         \<lparr>trace := trace (log_msg (logger c) lvl (strip line) s) @ forwarded lvl c pre\<rparr>)"
    by (rule Cons.IH [OF Cons.prems(1) pre])
  also have "(log_msg (logger c) lvl (strip line) s)
         \<lparr>trace := trace (log_msg (logger c) lvl (strip line) s) @ forwarded lvl c pre\<rparr> =
      s\<lparr>trace := trace s @ forwarded lvl c (st # pre)\<rparr>"
    by (simp add: st r forwarded_Cons log_msg_def emit_def)
  finally show ?case .
qed

lemma monitorAsync_waits:
  "proc c = Some p \<Longrightarrow> list_all plain_step pre \<Longrightarrow>
   monitorAsync lvl c pre s = Hangs (c, s\<lparr>trace := trace s @ forwarded lvl c pre\<rparr>)"
  using monitorAsync_plain_prefix [of c p pre lvl "[]" s] by simp

lemma monitorAsync_eof:
  "proc c = Some p \<Longrightarrow> list_all plain_step pre \<Longrightarrow>
   monitorAsync lvl c (pre @ (cl, Data []) # rest) s =
     Returns (if cl then owner_clears c else c, s\<lparr>trace := trace s @ forwarded lvl c pre\<rparr>)"
  using monitorAsync_plain_prefix [of c p pre lvl "(cl, Data []) # rest" s]
  by (simp add: readline_eof del: readline.simps)

lemma monitorAsync_cleared:
  "proc c = Some p \<Longrightarrow> list_all plain_step pre \<Longrightarrow>
   readline r = Inr line \<Longrightarrow> line \<noteq> [] \<Longrightarrow> utf8_valid (strip line) \<Longrightarrow>
   monitorAsync lvl c (pre @ (True, r) # rest) s =
     Returns (owner_clears c, s\<lparr>trace := trace s @ forwarded lvl c (pre @ [(True, r)])\<rparr>)"
proof -
  assume p: "proc c = Some p" and pre: "list_all plain_step pre"
    and rl: "readline r = Inr line" and ne: "line \<noteq> []" and v: "utf8_valid (strip line)"
  from rl have r: "r = Data line" by (rule readline_Inr)
  have n: "proc (owner_clears c) = None" by (simp add: owner_clears_def)
  have l: "logger (owner_clears c) = logger c" by (simp add: owner_clears_def)
  show ?thesis
    using p rl ne v monitorAsync_plain_prefix [OF p pre, of lvl "(True, r) # rest" s]
    by (simp add: decode_def monitorAsync_no_handle [OF n] l r forwarded_snoc log_msg_def emit_def
        del: readline.simps)
qed

lemma monitorAsync_readline_raises:
  "proc c = Some p \<Longrightarrow> list_all plain_step pre \<Longrightarrow> readline r = Inl e \<Longrightarrow>
   monitorAsync lvl c (pre @ (cl, r) # rest) s =
     Raises e (if cl then owner_clears c else c, s\<lparr>trace := trace s @ forwarded lvl c pre\<rparr>)"
  using monitorAsync_plain_prefix [of c p pre lvl "(cl, r) # rest" s]
  by simp

lemma monitorAsync_undecodable:
  "proc c = Some p \<Longrightarrow> list_all plain_step pre \<Longrightarrow>
   readline r = Inr line \<Longrightarrow> line \<noteq> [] \<Longrightarrow> \<not> utf8_valid (strip line) \<Longrightarrow>
   monitorAsync lvl c (pre @ (cl, r) # rest) s =
     Raises UnicodeDecodeError
       (if cl then owner_clears c else c, s\<lparr>trace := trace s @ forwarded lvl c pre\<rparr>)"
  using monitorAsync_plain_prefix [of c p pre lvl "(cl, r) # rest" s]
  by (simp add: decode_def)

text \<open>When the owner does not clear the object, the loop leaves it as it was.\<close>

lemma monitorAsync_frame:
  "list_all (\<lambda>st. \<not> fst st) steps \<Longrightarrow> fst (state_of (monitorAsync lvl c steps s)) = c"
proof (induction steps arbitrary: s)
  case Nil
  show ?case by (cases "proc c") simp_all
next
  case (Cons st steps)
  obtain cl r where st: "st = (cl, r)" by (cases st)
  from Cons.prems st have ncl: "\<not> cl" and rest: "list_all (\<lambda>st. \<not> fst st) steps" by simp_all
  show ?case
    using ncl Cons.IH [OF rest]
    by (cases "proc c"; cases "readline r")
       (auto simp add: st decode_def simp del: readline.simps)
qed

text \<open>The world changes only by log entries for the lines of some first awaits.\<close>

lemma monitorAsync_world:
  "\<exists>n. snd (state_of (monitorAsync lvl c steps s)) =
         s\<lparr>trace := trace s @ forwarded lvl c (take n steps)\<rparr>"
proof (induction steps arbitrary: c s)
  case Nil
  have "snd (state_of (monitorAsync lvl c [] s)) = s\<lparr>trace := trace s @ forwarded lvl c (take 0 [])\<rparr>"
    by (cases "proc c") simp_all
  then show ?case by blast
next
  case (Cons st steps)
  obtain cl r where st: "st = (cl, r)" by (cases st)
  let ?c1 = "if cl then owner_clears c else c"
  show ?case
  proof (cases "proc c \<noteq> None \<and> (\<exists>line. readline r = Inr line \<and> line \<noteq> [] \<and> utf8_valid (strip line))")
    case True
    then obtain p line where p: "proc c = Some p" and rl: "readline r = Inr line"
      and ne: "line \<noteq> []" and v: "utf8_valid (strip line)" by auto
    from rl have r: "r = Data line" by (rule readline_Inr)
    let ?s1 = "log_msg (logger c) lvl (strip line) s"
    from Cons.IH [of ?c1 ?s1] obtain n where
      n: "snd (state_of (monitorAsync lvl ?c1 steps ?s1)) =
            ?s1\<lparr>trace := trace ?s1 @ forwarded lvl ?c1 (take n steps)\<rparr>" by blast
    have l: "logger ?c1 = logger c" by (simp add: owner_clears_def)
    have f: "forwarded lvl ?c1 = forwarded lvl c" by simp
    have "monitorAsync lvl c (st # steps) s = monitorAsync lvl ?c1 steps ?s1"
      using p rl ne v by (simp add: st decode_def l del: readline.simps)
    then have "snd (state_of (monitorAsync lvl c (st # steps) s)) =
        s\<lparr>trace := trace s @ forwarded lvl c (take (Suc n) (st # steps))\<rparr>"
      using n by (simp add: f st r forwarded_Cons log_msg_def emit_def)
    then show ?thesis by blast
  next
    case False
    then have "snd (state_of (monitorAsync lvl c (st # steps) s)) =
        s\<lparr>trace := trace s @ forwarded lvl c (take 0 (st # steps))\<rparr>"
      by (cases "proc c"; cases "readline r")
         (auto simp add: st decode_def simp del: readline.simps)
    then show ?thesis by blast
  qed
qed

text \<open>A line of more bytes than the limit, all of them the letter a.\<close>

lemma monitorAsync_overlong_line:
  "proc c = Some p \<Longrightarrow> stream_limit < n \<Longrightarrow>
   monitorAsync lvl c [(False, Data (replicate n (CHR ''a'') @ [CHR 0x0A]))] s = Raises ValueError (c, s)"
  by (simp add: line_content_def)

lemma utf8_valid_letters: "utf8_valid (replicate n (CHR ''a''))"
  by (induction n) simp_all

lemma strip_letters: "strip (replicate n (CHR ''a'') @ [CHR 0x0A]) = replicate n (CHR ''a'')"
proof (cases n)
  case 0
  then show ?thesis by (simp add: strip_def is_space_def)
next
  case (Suc m)
  have a: "\<not> is_space (CHR ''a'')" by (simp add: is_space_def)
  have b: "is_space (CHR 0x0A)" by (simp add: is_space_def)
  have "dropWhile is_space (replicate (Suc m) (CHR ''a'') @ [CHR 0x0A]) =
      replicate (Suc m) (CHR ''a'') @ [CHR 0x0A]"
    using a by simp
  moreover have "rev (replicate (Suc m) (CHR ''a'') @ [CHR 0x0A]) =
      CHR 0x0A # CHR ''a'' # replicate m (CHR ''a'')"
    by (simp add: replicate_append_same)
  moreover have "rev (CHR ''a'' # replicate m (CHR ''a'')) = replicate (Suc m) (CHR ''a'')"
    by (simp add: replicate_append_same)
  ultimately show ?thesis
    using a b Suc by (simp add: strip_def)
qed

text \<open>
  Claim C9 as stated fails on a line that is not UTF-8 and on a line longer than the
  limit of the stream reader. The process is running and its handle is set. First,
  \<^verbatim>\<open>readline()\<close> gives the two bytes \<open>0xFF 0x0A\<close>, which is not end-of-stream:
  \<^verbatim>\<open>line.strip().decode()\<close> raises \<^verbatim>\<open>UnicodeDecodeError\<close>. Second, the stream has a
  line of 65537 letters, which is valid UTF-8: \<^verbatim>\<open>readline()\<close> raises \<^verbatim>\<open>ValueError\<close>.
  Both times the loop ends by raising, while the stream has not ended and the handle is
  not cleared, and the line is not forwarded to the log.
\<close>

theorem monitorAsync_undecodable_line:
  "proc running_ibc = Some 0 \<and>
   IBC_monitorAsync running_ibc [(False, Data [CHR 0xFF, CHR 0x0A])] running_world =
     Raises UnicodeDecodeError (running_ibc, running_world) \<and>
   utf8_valid (strip (replicate 65537 (CHR ''a'') @ [CHR 0x0A])) \<and>
   IBC_monitorAsync running_ibc [(False, Data (replicate 65537 (CHR ''a'') @ [CHR 0x0A]))] running_world =
     Raises ValueError (running_ibc, running_world)"
proof -
  have p: "proc running_ibc = Some 0" by (simp add: running_ibc_def)
  have a: "IBC_monitorAsync running_ibc [(False, Data [CHR 0xFF, CHR 0x0A])] running_world =
     Raises UnicodeDecodeError (running_ibc, running_world)"
    using p by (simp add: IBC_monitorAsync_def decode_def strip_def is_space_def line_content_def
        stream_limit_def)
  have b: "utf8_valid (strip (replicate 65537 (CHR ''a'') @ [CHR 0x0A]))"
    unfolding strip_letters by (rule utf8_valid_letters)
  have l: "stream_limit < 65537" by (simp add: stream_limit_def)
  have c: "IBC_monitorAsync running_ibc [(False, Data (replicate 65537 (CHR ''a'') @ [CHR 0x0A]))] running_world =
     Raises ValueError (running_ibc, running_world)"
    unfolding IBC_monitorAsync_def by (rule monitorAsync_overlong_line [OF p l])
  show ?thesis by (intro conjI) (rule p, rule a, rule b, rule c)
qed

text \<open>
  Claim C9, amended. Without a handle the monitor returns at once. With a handle, the
  loop passes every await that brings a line which is within the limit and valid UTF-8
  once stripped, and forwards each such line, stripped and decoded, to the log in the
  order read. After such awaits: if nothing more comes, the loop keeps waiting; at
  end-of-stream it returns; when the owner has cleared the handle during an await that
  brings a good line, it forwards the line and returns; when \<^verbatim>\<open>readline()\<close> raises (a
  line over the limit, a cancellation), the loop raises the same; when the line is not
  valid UTF-8 it raises \<^verbatim>\<open>UnicodeDecodeError\<close>, the line not forwarded. In every case
  the object is as the owner left it: when the owner never clears it, it is returned as
  it was, and the world differs only by log entries for the lines of some first awaits.
\<close>

theorem monitorAsync_frame_and_end:
  "(proc c = None \<longrightarrow> monitorAsync lvl c steps s = Returns (c, s)) \<and>
   (proc c = Some p \<and> list_all plain_step pre \<longrightarrow>
      monitorAsync lvl c pre s = Hangs (c, s\<lparr>trace := trace s @ forwarded lvl c pre\<rparr>) \<and>
      monitorAsync lvl c (pre @ (cl, Data []) # rest) s =
        Returns (if cl then owner_clears c else c, s\<lparr>trace := trace s @ forwarded lvl c pre\<rparr>) \<and>
      (readline r = Inr line \<and> line \<noteq> [] \<and> utf8_valid (strip line) \<longrightarrow>
         monitorAsync lvl c (pre @ (True, r) # rest) s =
           Returns (owner_clears c, s\<lparr>trace := trace s @ forwarded lvl c (pre @ [(True, r)])\<rparr>)) \<and>
      (readline r = Inl e \<longrightarrow>
         monitorAsync lvl c (pre @ (cl, r) # rest) s =
           Raises e (if cl then owner_clears c else c, s\<lparr>trace := trace s @ forwarded lvl c pre\<rparr>)) \<and>
      (readline r = Inr line \<and> line \<noteq> [] \<and> \<not> utf8_valid (strip line) \<longrightarrow>
         monitorAsync lvl c (pre @ (cl, r) # rest) s =
           Raises UnicodeDecodeError
             (if cl then owner_clears c else c, s\<lparr>trace := trace s @ forwarded lvl c pre\<rparr>))) \<and>
   (list_all (\<lambda>st. \<not> fst st) steps \<longrightarrow> fst (state_of (monitorAsync lvl c steps s)) = c) \<and>
   (\<exists>n. snd (state_of (monitorAsync lvl c steps s)) =
         s\<lparr>trace := trace s @ forwarded lvl c (take n steps)\<rparr>)"
proof (intro conjI impI)
  assume "proc c = None"
  then show "monitorAsync lvl c steps s = Returns (c, s)" by (rule monitorAsync_no_handle)
next
  assume "proc c = Some p \<and> list_all plain_step pre"
  then show "monitorAsync lvl c pre s = Hangs (c, s\<lparr>trace := trace s @ forwarded lvl c pre\<rparr>)"
    by (elim conjE) (rule monitorAsync_waits)
next
  assume "proc c = Some p \<and> list_all plain_step pre"
  then show "monitorAsync lvl c (pre @ (cl, Data []) # rest) s =
        Returns (if cl then owner_clears c else c, s\<lparr>trace := trace s @ forwarded lvl c pre\<rparr>)"
    by (elim conjE) (rule monitorAsync_eof)
next
  assume "proc c = Some p \<and> list_all plain_step pre"
    and "readline r = Inr line \<and> line \<noteq> [] \<and> utf8_valid (strip line)"
  then show "monitorAsync lvl c (pre @ (True, r) # rest) s =
           Returns (owner_clears c, s\<lparr>trace := trace s @ forwarded lvl c (pre @ [(True, r)])\<rparr>)"
    by (elim conjE) (rule monitorAsync_cleared)
next
  assume "proc c = Some p \<and> list_all plain_step pre" and "readline r = Inl e"
  then show "monitorAsync lvl c (pre @ (cl, r) # rest) s =
           Raises e (if cl then owner_clears c else c, s\<lparr>trace := trace s @ forwarded lvl c pre\<rparr>)"
    by (elim conjE) (rule monitorAsync_readline_raises)
next
  assume "proc c = Some p \<and> list_all plain_step pre"
    and "readline r = Inr line \<and> line \<noteq> [] \<and> \<not> utf8_valid (strip line)"
  then show "monitorAsync lvl c (pre @ (cl, r) # rest) s =
           Raises UnicodeDecodeError
             (if cl then owner_clears c else c, s\<lparr>trace := trace s @ forwarded lvl c pre\<rparr>)"
    by (elim conjE) (rule monitorAsync_undecodable)
next
  assume "list_all (\<lambda>st. \<not> fst st) steps"
  then show "fst (state_of (monitorAsync lvl c steps s)) = c" by (rule monitorAsync_frame)
next
  show "\<exists>n. snd (state_of (monitorAsync lvl c steps s)) =
         s\<lparr>trace := trace s @ forwarded lvl c (take n steps)\<rparr>"
    by (rule monitorAsync_world)
qed

theorem monitorAsync_frame_and_end_witness:
  "proc running_ibc = Some 0 \<and>
   list_all plain_step [(False, Data (''hello'' @ [CHR 0x0A]))] \<and>
   monitorAsync IbcLogLevel running_ibc
       ([(False, Data (''hello'' @ [CHR 0x0A]))] @ (False, Data []) # []) running_world =
     Returns (running_ibc,
              running_world\<lparr>trace := trace running_world @
                 forwarded IbcLogLevel running_ibc [(False, Data (''hello'' @ [CHR 0x0A]))]\<rparr>) \<and>
   forwarded IbcLogLevel running_ibc [(False, Data (''hello'' @ [CHR 0x0A]))] =
     [Log ''ib_insync.IBC'' DEBUG ''hello''] \<and>
   readline (Data (''bye'' @ [CHR 0x0A])) = Inr (''bye'' @ [CHR 0x0A]) \<and>
   ''bye'' @ [CHR 0x0A] \<noteq> [] \<and> utf8_valid (strip (''bye'' @ [CHR 0x0A])) \<and>
   monitorAsync IbcLogLevel running_ibc
       ([(False, Data (''hello'' @ [CHR 0x0A]))] @ (True, Data (''bye'' @ [CHR 0x0A])) # []) running_world =
     Returns (owner_clears running_ibc,
              running_world\<lparr>trace := trace running_world @
                 forwarded IbcLogLevel running_ibc
                   ([(False, Data (''hello'' @ [CHR 0x0A]))] @ [(True, Data (''bye'' @ [CHR 0x0A]))])\<rparr>) \<and>
   readline Cancelled = Inl CancelledError \<and>
   monitorAsync IbcLogLevel running_ibc
       ([(False, Data (''hello'' @ [CHR 0x0A]))] @ (True, Cancelled) # []) running_world =
     Raises CancelledError
       (owner_clears running_ibc,
        running_world\<lparr>trace := trace running_world @
           forwarded IbcLogLevel running_ibc [(False, Data (''hello'' @ [CHR 0x0A]))]\<rparr>)"
proof -
  have h1: "proc running_ibc = Some 0" by (simp add: running_ibc_def)
  have h2: "list_all plain_step [(False, Data (''hello'' @ [CHR 0x0A]))]"
    by (simp add: line_content_def stream_limit_def strip_def is_space_def)
  have f: "forwarded IbcLogLevel running_ibc [(False, Data (''hello'' @ [CHR 0x0A]))] =
     [Log ''ib_insync.IBC'' DEBUG ''hello'']"
    by (simp add: forwarded_def IbcLogLevel_def running_ibc_def main_ibc_def IBC_init_def
        strip_def is_space_def)
  have b: "readline (Data (''bye'' @ [CHR 0x0A])) = Inr (''bye'' @ [CHR 0x0A]) \<and>
      ''bye'' @ [CHR 0x0A] \<noteq> [] \<and> utf8_valid (strip (''bye'' @ [CHR 0x0A]))"
    by (simp add: line_content_def stream_limit_def strip_def is_space_def)
  have k: "readline Cancelled = Inl CancelledError" by simp
  note t1 = monitorAsync_frame_and_end [of running_ibc IbcLogLevel "[]" running_world 0
      "[(False, Data (''hello'' @ [CHR 0x0A]))]" False "[]" "Data (''bye'' @ [CHR 0x0A])"
      "''bye'' @ [CHR 0x0A]" CancelledError,
      THEN conjunct2, THEN conjunct1, THEN mp, OF conjI [OF h1 h2]]
  note t2 = monitorAsync_frame_and_end [of running_ibc IbcLogLevel "[]" running_world 0
      "[(False, Data (''hello'' @ [CHR 0x0A]))]" True "[]" Cancelled
      "[]" CancelledError,
      THEN conjunct2, THEN conjunct1, THEN mp, OF conjI [OF h1 h2]]
  note eof = t1 [THEN conjunct2, THEN conjunct1]
  note clr = t1 [THEN conjunct2, THEN conjunct2, THEN conjunct1, THEN mp, OF b]
  note cnc = t2 [THEN conjunct2, THEN conjunct2, THEN conjunct2, THEN conjunct1, THEN mp, OF k]
  have eof': "monitorAsync IbcLogLevel running_ibc
       ([(False, Data (''hello'' @ [CHR 0x0A]))] @ (False, Data []) # []) running_world =
     Returns (running_ibc,
              running_world\<lparr>trace := trace running_world @
                 forwarded IbcLogLevel running_ibc [(False, Data (''hello'' @ [CHR 0x0A]))]\<rparr>)"
    using eof by (simp only: if_False)
  have cnc': "monitorAsync IbcLogLevel running_ibc
       ([(False, Data (''hello'' @ [CHR 0x0A]))] @ (True, Cancelled) # []) running_world =
     Raises CancelledError
       (owner_clears running_ibc,
        running_world\<lparr>trace := trace running_world @
           forwarded IbcLogLevel running_ibc [(False, Data (''hello'' @ [CHR 0x0A]))]\<rparr>)"
    using cnc by (simp only: if_True)
  show ?thesis
    by (intro conjI) (rule h1, rule h2, rule eof', rule f, rule b [THEN conjunct1],
        rule b [THEN conjunct2, THEN conjunct1], rule b [THEN conjunct2, THEN conjunct2],
        rule clr, rule k, rule cnc')
qed
section \<open>The watchdog\<close>

lemma terminateAsync_timers:
  "terminateAsync c s = Returns (c', s') \<Longrightarrow> timers s' = timers s"
  by (auto simp add: terminateAsync_def proc_terminate_def proc_wait_def clear_proc_and_monitor_def
      task_cancel_def log_msg_def emit_def Let_def
      split: option.splits outcome.splits pstatus.splits if_splits)

lemma terminateAsync_returned:
  "ctrl_ok c \<Longrightarrow> (case proc c of None \<Rightarrow> True | Some pid \<Rightarrow> os_procs s pid \<noteq> Unresponsive) \<Longrightarrow>
   returned (terminateAsync c s)"
  by (cases "proc c"; cases "monitor c")
     (auto simp add: terminateAsync_def proc_terminate_def proc_wait_def clear_proc_and_monitor_def
      ctrl_ok_def log_msg_def emit_def Let_def split: pstatus.splits)

lemma Watchdog_stop_returned:
  "Watchdog_ok w \<Longrightarrow> can_terminate w s \<Longrightarrow> returned (Watchdog_stop w s)"
proof -
  assume ok: "Watchdog_ok w" and ct: "can_terminate w s"
  from ok obtain i c where i: "ib w = Some i" and c: "controller w = Some c" and cok: "ctrl_ok c"
    by (auto simp add: Watchdog_ok_def split: option.splits)
  let ?s2 = "emit IB_disconnect (log_msg Watchdog_logger INFO ''Stopping'' s)"
  from ct c have "case proc c of None \<Rightarrow> True | Some pid \<Rightarrow> os_procs ?s2 pid \<noteq> Unresponsive"
    by (simp add: can_terminate_def log_msg_def emit_def split: option.splits)
  with cok have "returned (terminateAsync c ?s2)" by (rule terminateAsync_returned)
  then show ?thesis
    using i c by (cases "terminateAsync c ?s2") (simp_all add: Watchdog_stop_def Let_def)
qed

lemma Watchdog_stop_keeps:
  "Watchdog_stop w s = Returns (w', s') \<Longrightarrow> timers s' = timers s \<and> retryDelay w' = retryDelay w"
proof -
  assume r: "Watchdog_stop w s = Returns (w', s')"
  then obtain i c where i: "ib w = Some i" and c: "controller w = Some c"
    by (auto simp add: Watchdog_stop_def Let_def split: option.splits)
  let ?s2 = "emit IB_disconnect (log_msg Watchdog_logger INFO ''Stopping'' s)"
  from r i c obtain c' where t: "terminateAsync c ?s2 = Returns (c', s')"
    and w': "w' = w\<lparr>ib := Some (i\<lparr>connected := False\<rparr>), controller := Some c'\<rparr>"
    by (cases "terminateAsync c ?s2") (auto simp add: Watchdog_stop_def Let_def)
  from t have "timers s' = timers ?s2" by (rule terminateAsync_timers)
  then show ?thesis using w' by (simp add: log_msg_def emit_def)
qed

lemma Watchdog_stop_effect:
  "Watchdog_stop w s = Returns (w', s') \<Longrightarrow>
   (case controller w' of None \<Rightarrow> False | Some c \<Rightarrow> proc c = None) \<and>
   (case ib w' of None \<Rightarrow> False | Some i \<Rightarrow> \<not> connected i)"
proof -
  assume r: "Watchdog_stop w s = Returns (w', s')"
  then obtain i c where i: "ib w = Some i" and c: "controller w = Some c"
    by (auto simp add: Watchdog_stop_def Let_def split: option.splits)
  let ?s2 = "emit IB_disconnect (log_msg Watchdog_logger INFO ''Stopping'' s)"
  from r i c obtain c' where t: "terminateAsync c ?s2 = Returns (c', s')"
    and w': "w' = w\<lparr>ib := Some (i\<lparr>connected := False\<rparr>), controller := Some c'\<rparr>"
    by (cases "terminateAsync c ?s2") (auto simp add: Watchdog_stop_def Let_def)
  from t have "proc c' = None" by (rule terminateAsync_returns_cleared)
  then show ?thesis using w' by simp
qed

lemma scheduleRestart_eq:
  "Watchdog_scheduleRestart w s =
     Returns (w, s\<lparr>timers := timers s @ [(retryDelay w, Watchdog_start)],
                  trace := trace s @ [Log Watchdog_logger INFO
                                        (''Schedule restart in '' @ str_int (retryDelay w) @ ''s''),
                                      Call_later (retryDelay w) Watchdog_start]\<rparr>)"
  by (simp add: Watchdog_scheduleRestart_def call_later_def log_msg_def emit_def)

lemma stop_and_restart_ok:
  assumes "Watchdog_ok w" and "can_terminate w s"
  shows "returned (stop_and_restart w s) \<and>
         timers (snd (state_of (stop_and_restart w s))) = timers s @ [(retryDelay w, Watchdog_start)] \<and>
         (case controller (fst (state_of (stop_and_restart w s))) of
            None \<Rightarrow> False | Some c \<Rightarrow> proc c = None)"
proof -
  from assms have "returned (Watchdog_stop w s)" by (rule Watchdog_stop_returned)
  then obtain w' s' where r: "Watchdog_stop w s = Returns (w', s')"
    by (cases "Watchdog_stop w s") auto
  from r have k: "timers s' = timers s \<and> retryDelay w' = retryDelay w" by (rule Watchdog_stop_keeps)
  from r have e: "case controller w' of None \<Rightarrow> False | Some c \<Rightarrow> proc c = None"
    using Watchdog_stop_effect by blast
  show ?thesis using r k e by (simp add: stop_and_restart_def scheduleRestart_eq)
qed

lemma can_terminate_trace [simp]: "can_terminate w (s\<lparr>trace := tr\<rparr>) = can_terminate w s"
  by (simp add: can_terminate_def split: option.splits)

text \<open>A process that never exits keeps \<^verbatim>\<open>stop()\<close> waiting: no restart is scheduled.\<close>

lemma Watchdog_stop_stuck:
  assumes "Watchdog_ok w" and "\<not> can_terminate w s"
  shows "\<exists>x. Watchdog_stop w s = Hangs x \<and> timers (snd x) = timers s"
proof -
  from assms obtain i c pid where i: "ib w = Some i" and c: "controller w = Some c"
    and p: "proc c = Some pid" and u: "os_procs s pid = Unresponsive"
    by (auto simp add: Watchdog_ok_def can_terminate_def split: option.splits)
  let ?s2 = "emit IB_disconnect (log_msg Watchdog_logger INFO ''Stopping'' s)"
  let ?s3 = "?s2\<lparr>trace := trace ?s2 @ [Log (logger c) INFO ''Terminating'', Proc_terminate pid,
                                           Proc_wait pid]\<rparr>"
  from u have u2: "os_procs ?s2 pid = Unresponsive" by (simp add: log_msg_def emit_def)
  have t: "terminateAsync c ?s2 = Hangs (c, ?s3)"
    by (rule terminateAsync_unresponsive [OF p u2])
  from i c have "Watchdog_stop w s =
      Hangs (w\<lparr>ib := Some (i\<lparr>connected := False\<rparr>), controller := Some c\<rparr>, ?s3)"
    by (simp add: Watchdog_stop_def Let_def t)
  moreover have "timers ?s3 = timers s" by (simp add: log_msg_def emit_def)
  ultimately show ?thesis by simp
qed

lemma stop_and_restart_stuck:
  assumes "Watchdog_ok w" and "\<not> can_terminate w s"
  shows "\<not> returned (stop_and_restart w s) \<and>
         timers (snd (state_of (stop_and_restart w s))) = timers s \<and>
         stop_and_restart w s = Hangs (state_of (stop_and_restart w s))"
proof -
  from assms obtain x where "Watchdog_stop w s = Hangs x" and "timers (snd x) = timers s"
    using Watchdog_stop_stuck by blast
  then show ?thesis by (simp add: stop_and_restart_def)
qed

lemma running_app_ok: "Watchdog_ok running_app \<and> can_terminate running_app running_world"
  by (simp add: Watchdog_ok_def can_terminate_def running_app_def Watchdog_defaults_def
      running_ctrl_def running_world_def world0_def ctrl_ok_def)

lemma running_app_stuck: "Watchdog_ok running_app \<and> \<not> can_terminate running_app stuck_world"
  by (simp add: Watchdog_ok_def can_terminate_def running_app_def Watchdog_defaults_def
      running_ctrl_def stuck_world_def running_world_def world0_def ctrl_ok_def)

lemma running_app_ib:
  "ib running_app = Some (IB_new\<lparr>connected := True, idle_timeout := Some 20,
                        apiError := Some Watchdog_onApiError,
                        callbacks := (\<lambda>k. if k = ''error'' then Some Watchdog_onError else None)\<rparr>)"
  by (simp add: running_app_def Watchdog_defaults_def)

lemma sample_timers: "timers running_world = [] \<and> timers stuck_world = []"
  by (simp add: stuck_world_def running_world_def world0_def)

lemma probe_ok_wait_for: "probe_ok reply = (\<exists>bars. wait_for reply 4 = Inr bars \<and> bars \<noteq> [])"
  by (cases reply) auto

lemma watchAsync_body_alive:
  "ib w = Some i \<Longrightarrow> probe_ok reply \<Longrightarrow>
   watchAsync_body w (Inr reply) s =
     Returns (w\<lparr>ib := Some (i\<lparr>idle_timeout := Some (appTimeout w)\<rparr>)\<rparr>,
              s\<lparr>trace := trace s @ probe_and_rearm w\<rparr>)"
  by (cases reply) (simp_all add: watchAsync_body_def probe_and_rearm_def emit_def Let_def)

lemma watchAsync_body_hard_timeout:
  "Watchdog_ok w \<Longrightarrow> \<not> probe_ok reply \<Longrightarrow>
   watchAsync_body w (Inr reply) s =
     stop_and_restart w
       (s\<lparr>trace := trace s @ [IB_reqHistoricalData ''EURUSD'' [] ''30 S'' ''5 secs'' ''MIDPOINT'' False,
                              Wait_for 4, Log Watchdog_logger ERROR ''Hard timeout'']\<rparr>)"
  by (cases reply) (auto simp add: watchAsync_body_def Watchdog_ok_def log_msg_def emit_def Let_def)

lemma watchAsync_body_request_raises:
  "ib w = Some i \<Longrightarrow> watchAsync_body w (Inl e) s = Raises e (w, s)"
  by (simp add: watchAsync_body_def)

text \<open>
  Firings that are all answered in time: one probe and one \<^verbatim>\<open>setTimeout\<close> for each,
  and the loop is waiting for the next firing.
\<close>

lemma watchAsync_all_alive:
  "ib w = Some i \<Longrightarrow> list_all probe_ok replies \<Longrightarrow>
   watchAsync w (map Inr replies) s =
     Hangs (if replies = [] then w else w\<lparr>ib := Some (i\<lparr>idle_timeout := Some (appTimeout w)\<rparr>)\<rparr>,
            s\<lparr>trace := trace s @ concat (map (\<lambda>r. probe_and_rearm w) replies)\<rparr>)"
proof (induction replies arbitrary: w i s)
  case Nil
  then show ?case by simp
next
  case (Cons reply replies)
  let ?w1 = "w\<lparr>ib := Some (i\<lparr>idle_timeout := Some (appTimeout w)\<rparr>)\<rparr>"
  let ?s1 = "s\<lparr>trace := trace s @ probe_and_rearm w\<rparr>"
  from Cons.prems have ok: "probe_ok reply" and rest: "list_all probe_ok replies" by simp_all
  have b: "watchAsync_body w (Inr reply) s = Returns (?w1, ?s1)"
    using Cons.prems(1) ok by (rule watchAsync_body_alive)
  have i1: "ib ?w1 = Some (i\<lparr>idle_timeout := Some (appTimeout w)\<rparr>)" by simp
  have pr: "probe_and_rearm ?w1 = probe_and_rearm w" by (simp add: probe_and_rearm_def)
  have "watchAsync w (map Inr (reply # replies)) s = watchAsync ?w1 (map Inr replies) ?s1"
    using b by simp
  also have "\<dots> = Hangs (if replies = [] then ?w1
         else ?w1\<lparr>ib := Some (i\<lparr>idle_timeout := Some (appTimeout w)\<rparr>\<lparr>idle_timeout := Some (appTimeout ?w1)\<rparr>)\<rparr>,
       ?s1\<lparr>trace := trace ?s1 @ concat (map (\<lambda>r. probe_and_rearm ?w1) replies)\<rparr>)"
    by (rule Cons.IH [OF i1 rest])
  also have "\<dots> = Hangs (?w1, s\<lparr>trace := trace s @ concat (map (\<lambda>r. probe_and_rearm w) (reply # replies))\<rparr>)"
    by (simp add: pr)
  finally show ?case by simp
qed

text \<open>
  Claim C1 as stated fails in two ways. First, the probe is not answered and the process
  of the controller never exits: \<^verbatim>\<open>stop()\<close> waits for the process for ever, the body
  does not return, and no restart is scheduled. Second, the call of
  \<^verbatim>\<open>reqHistoricalDataAsync\<close>, which stands before the \<^verbatim>\<open>try\<close>, raises at a firing:
  the loop ends with that error, nothing is stopped or scheduled, and the firing that
  follows gets no probe.
\<close>

theorem watchAsync_no_restart_when_stop_blocks:
  "Watchdog_ok running_app \<and>
   \<not> returned (watchAsync_body running_app (Inr (No_reply :: nat probe_reply)) stuck_world) \<and>
   timers (snd (state_of (watchAsync_body running_app (Inr (No_reply :: nat probe_reply)) stuck_world))) = [] \<and>
   watchAsync running_app [Inl (OtherError ''Not connected''), Inr (Reply 100 [5::nat])] running_world =
     Raises (OtherError ''Not connected'') (running_app, running_world)"
proof -
  let ?s1 = "stuck_world\<lparr>trace := trace stuck_world @
      [IB_reqHistoricalData ''EURUSD'' [] ''30 S'' ''5 secs'' ''MIDPOINT'' False,
       Wait_for 4, Log Watchdog_logger ERROR ''Hard timeout'']\<rparr>"
  have ok: "Watchdog_ok running_app" and st: "\<not> can_terminate running_app ?s1"
    using running_app_stuck by simp_all
  have b: "watchAsync_body running_app (Inr (No_reply :: nat probe_reply)) stuck_world =
      stop_and_restart running_app ?s1"
    using ok by (rule watchAsync_body_hard_timeout) simp
  have h: "\<not> returned (stop_and_restart running_app ?s1) \<and>
         timers (snd (state_of (stop_and_restart running_app ?s1))) = timers ?s1 \<and>
         stop_and_restart running_app ?s1 = Hangs (state_of (stop_and_restart running_app ?s1))"
    using ok st by (rule stop_and_restart_stuck)
  have r: "watchAsync running_app [Inl (OtherError ''Not connected''), Inr (Reply 100 [5::nat])] running_world =
     Raises (OtherError ''Not connected'') (running_app, running_world)"
    by (simp add: watchAsync_body_request_raises [OF running_app_ib])
  from ok b h r show ?thesis by (simp add: sample_timers)
qed

text \<open>
  Claim C1, amended. Firings at which the probe is answered within the 4 seconds with at
  least one bar: at each of them the loop requests historical data for EURUSD, waits for
  it with \<^verbatim>\<open>wait_for(probe, 4)\<close> and calls \<^verbatim>\<open>setTimeout(appTimeout)\<close>, and does nothing
  else: nothing is stopped, no timer is added, and the loop waits for the next firing. A
  firing at which the answer is empty, not there after 4 seconds, or an error, on a
  watchdog as \<^verbatim>\<open>__init__\<close> leaves it: the loop logs the hard timeout and runs
  \<^verbatim>\<open>stop()\<close>; if the process of the controller exits when told to, \<^verbatim>\<open>stop()\<close> returns,
  \<^verbatim>\<open>scheduleRestart()\<close> follows, the controller has no handle left, exactly one timer,
  with delay \<^verbatim>\<open>retryDelay\<close> and callback \<^verbatim>\<open>start\<close>, is added to the pending ones, and
  the loop goes on with the next firing; if the process never exits, \<^verbatim>\<open>stop()\<close> does
  not return and no timer is added. A firing at which the request call itself raises ends
  the loop with that error.
\<close>

theorem watchAsync_probe_on_idle_timeout:
  "(ib w = Some i \<and> list_all probe_ok replies \<longrightarrow>
      watchAsync w (map Inr replies) s =
        Hangs (if replies = [] then w else w\<lparr>ib := Some (i\<lparr>idle_timeout := Some (appTimeout w)\<rparr>)\<rparr>,
               s\<lparr>trace := trace s @ concat (map (\<lambda>r. probe_and_rearm w) replies)\<rparr>)) \<and>
   (ib w = Some i \<and> probe_ok reply \<longrightarrow>
      watchAsync_body w (Inr reply) s =
        Returns (w\<lparr>ib := Some (i\<lparr>idle_timeout := Some (appTimeout w)\<rparr>)\<rparr>,
                 s\<lparr>trace := trace s @ [IB_reqHistoricalData ''EURUSD'' [] ''30 S'' ''5 secs'' ''MIDPOINT'' False,
                                       Wait_for 4, IB_setTimeout (appTimeout w)]\<rparr>) \<and>
      watchAsync w (Inr reply # reqs) s =
        watchAsync (w\<lparr>ib := Some (i\<lparr>idle_timeout := Some (appTimeout w)\<rparr>)\<rparr>) reqs
                 (s\<lparr>trace := trace s @ [IB_reqHistoricalData ''EURUSD'' [] ''30 S'' ''5 secs'' ''MIDPOINT'' False,
                                       Wait_for 4, IB_setTimeout (appTimeout w)]\<rparr>)) \<and>
   (Watchdog_ok w \<and> can_terminate w s \<and> \<not> probe_ok reply \<longrightarrow>
      watchAsync_body w (Inr reply) s =
        and_then
          (Watchdog_stop w
             (s\<lparr>trace := trace s @ [IB_reqHistoricalData ''EURUSD'' [] ''30 S'' ''5 secs'' ''MIDPOINT'' False,
                                    Wait_for 4, Log Watchdog_logger ERROR ''Hard timeout'']\<rparr>))
          (\<lambda>ws. Watchdog_scheduleRestart (fst ws) (snd ws)) \<and>
      returned (watchAsync_body w (Inr reply) s) \<and>
      timers (snd (state_of (watchAsync_body w (Inr reply) s))) = timers s @ [(retryDelay w, Watchdog_start)] \<and>
      (case controller (fst (state_of (watchAsync_body w (Inr reply) s))) of
         None \<Rightarrow> False | Some c \<Rightarrow> proc c = None) \<and>
      watchAsync w (Inr reply # reqs) s =
        watchAsync (fst (state_of (watchAsync_body w (Inr reply) s))) reqs
                   (snd (state_of (watchAsync_body w (Inr reply) s)))) \<and>
   (Watchdog_ok w \<and> \<not> can_terminate w s \<and> \<not> probe_ok reply \<longrightarrow>
      \<not> returned (watchAsync_body w (Inr reply) s) \<and>
      timers (snd (state_of (watchAsync_body w (Inr reply) s))) = timers s \<and>
      watchAsync w (Inr reply # reqs) s = Hangs (state_of (watchAsync_body w (Inr reply) s))) \<and>
   (ib w = Some i \<longrightarrow> watchAsync w (Inl e # reqs) s = Raises e (w, s))"
proof (intro conjI impI)
  assume "ib w = Some i \<and> list_all probe_ok replies"
  then show "watchAsync w (map Inr replies) s =
        Hangs (if replies = [] then w else w\<lparr>ib := Some (i\<lparr>idle_timeout := Some (appTimeout w)\<rparr>)\<rparr>,
               s\<lparr>trace := trace s @ concat (map (\<lambda>r. probe_and_rearm w) replies)\<rparr>)"
    by (elim conjE) (rule watchAsync_all_alive)
next
  assume h: "ib w = Some i \<and> probe_ok reply"
  then have b: "watchAsync_body w (Inr reply) s =
        Returns (w\<lparr>ib := Some (i\<lparr>idle_timeout := Some (appTimeout w)\<rparr>)\<rparr>,
                 s\<lparr>trace := trace s @ [IB_reqHistoricalData ''EURUSD'' [] ''30 S'' ''5 secs'' ''MIDPOINT'' False,
                                       Wait_for 4, IB_setTimeout (appTimeout w)]\<rparr>)"
    using watchAsync_body_alive [of w i reply s] by (simp add: probe_and_rearm_def)
  then show "watchAsync_body w (Inr reply) s =
        Returns (w\<lparr>ib := Some (i\<lparr>idle_timeout := Some (appTimeout w)\<rparr>)\<rparr>,
                 s\<lparr>trace := trace s @ [IB_reqHistoricalData ''EURUSD'' [] ''30 S'' ''5 secs'' ''MIDPOINT'' False,
                                       Wait_for 4, IB_setTimeout (appTimeout w)]\<rparr>)" .
  from b show "watchAsync w (Inr reply # reqs) s =
        watchAsync (w\<lparr>ib := Some (i\<lparr>idle_timeout := Some (appTimeout w)\<rparr>)\<rparr>) reqs
                 (s\<lparr>trace := trace s @ [IB_reqHistoricalData ''EURUSD'' [] ''30 S'' ''5 secs'' ''MIDPOINT'' False,
                                       Wait_for 4, IB_setTimeout (appTimeout w)]\<rparr>)"
    by simp
next
  let ?s1 = "s\<lparr>trace := trace s @ [IB_reqHistoricalData ''EURUSD'' [] ''30 S'' ''5 secs'' ''MIDPOINT'' False,
                                    Wait_for 4, Log Watchdog_logger ERROR ''Hard timeout'']\<rparr>"
  assume h: "Watchdog_ok w \<and> can_terminate w s \<and> \<not> probe_ok reply"
  then have ok: "Watchdog_ok w" and ct: "can_terminate w ?s1" and f: "\<not> probe_ok reply"
    by simp_all
  from ok f have b: "watchAsync_body w (Inr reply) s = stop_and_restart w ?s1"
    by (rule watchAsync_body_hard_timeout)
  from ok ct have r: "returned (stop_and_restart w ?s1) \<and>
         timers (snd (state_of (stop_and_restart w ?s1))) = timers ?s1 @ [(retryDelay w, Watchdog_start)] \<and>
         (case controller (fst (state_of (stop_and_restart w ?s1))) of
            None \<Rightarrow> False | Some c \<Rightarrow> proc c = None)"
    by (rule stop_and_restart_ok)
  from b show "watchAsync_body w (Inr reply) s =
        and_then (Watchdog_stop w ?s1) (\<lambda>ws. Watchdog_scheduleRestart (fst ws) (snd ws))"
    by (simp add: stop_and_restart_def)
  from b r show "returned (watchAsync_body w (Inr reply) s)" by simp
  from b r show "timers (snd (state_of (watchAsync_body w (Inr reply) s))) =
      timers s @ [(retryDelay w, Watchdog_start)]" by simp
  from b r show "case controller (fst (state_of (watchAsync_body w (Inr reply) s))) of
         None \<Rightarrow> False | Some c \<Rightarrow> proc c = None" by simp
  from b r show "watchAsync w (Inr reply # reqs) s =
        watchAsync (fst (state_of (watchAsync_body w (Inr reply) s))) reqs
                   (snd (state_of (watchAsync_body w (Inr reply) s)))"
    by (cases "stop_and_restart w ?s1") simp_all
next
  let ?s1 = "s\<lparr>trace := trace s @ [IB_reqHistoricalData ''EURUSD'' [] ''30 S'' ''5 secs'' ''MIDPOINT'' False,
                                    Wait_for 4, Log Watchdog_logger ERROR ''Hard timeout'']\<rparr>"
  assume h: "Watchdog_ok w \<and> \<not> can_terminate w s \<and> \<not> probe_ok reply"
  then have ok: "Watchdog_ok w" and ct: "\<not> can_terminate w ?s1" and f: "\<not> probe_ok reply"
    by simp_all
  from ok f have b: "watchAsync_body w (Inr reply) s = stop_and_restart w ?s1"
    by (rule watchAsync_body_hard_timeout)
  from ok ct have r: "\<not> returned (stop_and_restart w ?s1) \<and>
         timers (snd (state_of (stop_and_restart w ?s1))) = timers ?s1 \<and>
         stop_and_restart w ?s1 = Hangs (state_of (stop_and_restart w ?s1))"
    by (rule stop_and_restart_stuck)
  from b r show "\<not> returned (watchAsync_body w (Inr reply) s)" by simp
  from b r show "timers (snd (state_of (watchAsync_body w (Inr reply) s))) = timers s" by simp
  from r have "\<exists>x. stop_and_restart w ?s1 = Hangs x" by blast
  then obtain x where x: "stop_and_restart w ?s1 = Hangs x" by blast
  with b show "watchAsync w (Inr reply # reqs) s = Hangs (state_of (watchAsync_body w (Inr reply) s))"
    by simp
next
  assume "ib w = Some i"
  then show "watchAsync w (Inl e # reqs) s = Raises e (w, s)"
    by (simp add: watchAsync_body_request_raises)
qed

theorem watchAsync_probe_on_idle_timeout_witness:
  "ib running_app = Some (IB_new\<lparr>connected := True, idle_timeout := Some 20,
                        apiError := Some Watchdog_onApiError,
                        callbacks := (\<lambda>k. if k = ''error'' then Some Watchdog_onError else None)\<rparr>) \<and>
   list_all probe_ok [Reply 100 [5::nat], Reply 3999 [7]] \<and>
   watchAsync running_app (map Inr [Reply 100 [5::nat], Reply 3999 [7]]) running_world =
     Hangs (running_app\<lparr>ib := Some (IB_new\<lparr>connected := True, idle_timeout := Some 20,
                        apiError := Some Watchdog_onApiError,
                        callbacks := (\<lambda>k. if k = ''error'' then Some Watchdog_onError else None)\<rparr>
                          \<lparr>idle_timeout := Some (appTimeout running_app)\<rparr>)\<rparr>,
            running_world\<lparr>trace := trace running_world @
               probe_and_rearm running_app @ probe_and_rearm running_app\<rparr>) \<and>
   Watchdog_ok running_app \<and> can_terminate running_app running_world \<and>
   \<not> probe_ok (Reply 4000 [5::nat]) \<and>
   returned (watchAsync_body running_app (Inr (Reply 4000 [5::nat])) running_world) \<and>
   timers (snd (state_of (watchAsync_body running_app (Inr (Reply 4000 [5::nat])) running_world))) =
     [(1, Watchdog_start)] \<and>
   \<not> can_terminate running_app stuck_world \<and>
   \<not> returned (watchAsync_body running_app (Inr (Reply 4000 [5::nat])) stuck_world) \<and>
   timers (snd (state_of (watchAsync_body running_app (Inr (Reply 4000 [5::nat])) stuck_world))) = []"
proof -
  let ?i = "IB_new\<lparr>connected := True, idle_timeout := Some 20,
                        apiError := Some Watchdog_onApiError,
                        callbacks := (\<lambda>k. if k = ''error'' then Some Watchdog_onError else None)\<rparr>"
  have l: "list_all probe_ok [Reply 100 [5::nat], Reply 3999 [7]]" by simp
  have n: "\<not> probe_ok (Reply 4000 [5::nat])" by simp
  have h1: "ib running_app = Some ?i \<and> list_all probe_ok [Reply 100 [5::nat], Reply 3999 [7]]"
    using running_app_ib l by simp
  have h2: "Watchdog_ok running_app \<and> can_terminate running_app running_world \<and>
      \<not> probe_ok (Reply 4000 [5::nat])"
    using running_app_ok n by simp
  have h3: "Watchdog_ok running_app \<and> \<not> can_terminate running_app stuck_world \<and>
      \<not> probe_ok (Reply 4000 [5::nat])"
    using running_app_stuck n by simp
  note a = watchAsync_probe_on_idle_timeout [of running_app ?i "[Reply 100 [5::nat], Reply 3999 [7]]"
      running_world "Reply 4000 [5::nat]" "[]" "OtherError []",
      THEN conjunct1, THEN mp, OF h1]
  note b = watchAsync_probe_on_idle_timeout [of running_app ?i "[Reply 100 [5::nat], Reply 3999 [7]]"
      running_world "Reply 4000 [5::nat]" "[]" "OtherError []",
      THEN conjunct2, THEN conjunct2, THEN conjunct1, THEN mp, OF h2]
  note c = watchAsync_probe_on_idle_timeout [of running_app ?i "[Reply 100 [5::nat], Reply 3999 [7]]"
      stuck_world "Reply 4000 [5::nat]" "[]" "OtherError []",
      THEN conjunct2, THEN conjunct2, THEN conjunct2, THEN conjunct1, THEN mp, OF h3]
  have rd: "retryDelay running_app = 1" by (simp add: running_app_def Watchdog_defaults_def)
  from a have a': "watchAsync running_app (map Inr [Reply 100 [5::nat], Reply 3999 [7]]) running_world =
     Hangs (running_app\<lparr>ib := Some (?i\<lparr>idle_timeout := Some (appTimeout running_app)\<rparr>)\<rparr>,
            running_world\<lparr>trace := trace running_world @
               probe_and_rearm running_app @ probe_and_rearm running_app\<rparr>)"
    by simp
  from b have b1: "returned (watchAsync_body running_app (Inr (Reply 4000 [5::nat])) running_world)"
    by (elim conjE)
  from b have b2: "timers (snd (state_of (watchAsync_body running_app (Inr (Reply 4000 [5::nat])) running_world))) =
     [(1, Watchdog_start)]"
    by (elim conjE) (simp add: sample_timers rd)
  from c have c1: "\<not> returned (watchAsync_body running_app (Inr (Reply 4000 [5::nat])) stuck_world)"
    by (elim conjE)
  from c have c2: "timers (snd (state_of (watchAsync_body running_app (Inr (Reply 4000 [5::nat])) stuck_world))) = []"
    by (elim conjE) (simp add: sample_timers)
  show ?thesis
    by (intro conjI) (rule running_app_ib, rule l, rule a', rule running_app_ok [THEN conjunct1],
        rule running_app_ok [THEN conjunct2], rule n, rule b1, rule b2,
        rule running_app_stuck [THEN conjunct2], rule c1, rule c2)
qed

text \<open>What \<^verbatim>\<open>__init__\<close> asserts holds of every watchdog it returns.\<close>

lemma Watchdog_init_ok:
  "Watchdog_init w s = Returns (w', s') \<Longrightarrow>
   (case controller w of None \<Rightarrow> True | Some c \<Rightarrow> ctrl_ok c) \<Longrightarrow> Watchdog_ok w'"
  by (auto simp add: Watchdog_init_def Watchdog_ok_def ensure_future_def Let_def
      split: option.splits if_splits)

lemma onError_other_code:
  "errorCode \<noteq> 1100 \<Longrightarrow> Watchdog_onError_call w reqId errorCode errorString contract s = Returns (w, s)"
  by (simp add: Watchdog_onError_call_def)

lemma onError_1100:
  "Watchdog_onError_call w reqId 1100 errorString contract s =
     stop_and_restart w
       (s\<lparr>trace := trace s @ [Log Watchdog_logger INFO (''Error 1100: '' @ errorString)]\<rparr>)"
  by (simp add: Watchdog_onError_call_def log_msg_def emit_def)

text \<open>
  Claim C2 as stated fails when the process of the controller never exits: on error
  1100 \<^verbatim>\<open>stop()\<close> waits for the process for ever, \<^verbatim>\<open>onError\<close> does not return, and
  no restart is scheduled.
\<close>

theorem onError_1100_no_restart_when_stop_blocks:
  "Watchdog_ok running_app \<and>
   \<not> returned (Watchdog_onError_call running_app (-1) 1100 ''Connectivity lost'' PNone stuck_world) \<and>
   timers (snd (state_of (Watchdog_onError_call running_app (-1) 1100 ''Connectivity lost'' PNone stuck_world))) = []"
proof -
  let ?s1 = "stuck_world\<lparr>trace := trace stuck_world @
      [Log Watchdog_logger INFO (''Error 1100: '' @ ''Connectivity lost'')]\<rparr>"
  have ok: "Watchdog_ok running_app" and st: "\<not> can_terminate running_app ?s1"
    using running_app_stuck by simp_all
  have b: "Watchdog_onError_call running_app (-1) 1100 ''Connectivity lost'' PNone stuck_world =
      stop_and_restart running_app ?s1"
    by (rule onError_1100)
  have h: "\<not> returned (stop_and_restart running_app ?s1) \<and>
         timers (snd (state_of (stop_and_restart running_app ?s1))) = timers ?s1 \<and>
         stop_and_restart running_app ?s1 = Hangs (state_of (stop_and_restart running_app ?s1))"
    using ok st by (rule stop_and_restart_stuck)
  from ok b h show ?thesis by (simp add: sample_timers)
qed

text \<open>
  Claim C2, amended. \<^verbatim>\<open>onError\<close> with an error code other than 1100 returns with the
  watchdog and the world unchanged. With the code 1100, on a watchdog as \<^verbatim>\<open>__init__\<close>
  leaves it, it logs and runs \<^verbatim>\<open>stop()\<close>. If the process of the controller exits when
  told to, \<^verbatim>\<open>stop()\<close> returns and \<^verbatim>\<open>scheduleRestart()\<close> follows: the controller has no
  handle left and exactly one timer is added to the pending ones, with callback
  \<^verbatim>\<open>start\<close> and the delay \<^verbatim>\<open>retryDelay\<close>, which is positive. If the process never
  exits, \<^verbatim>\<open>stop()\<close> does not return and no timer is added.
\<close>

theorem onError_restarts_only_on_1100:
  "(errorCode \<noteq> 1100 \<longrightarrow>
      Watchdog_onError_call w reqId errorCode errorString contract s = Returns (w, s)) \<and>
   (Watchdog_ok w \<and> can_terminate w s \<longrightarrow>
      Watchdog_onError_call w reqId 1100 errorString contract s =
        and_then
          (Watchdog_stop w
             (s\<lparr>trace := trace s @ [Log Watchdog_logger INFO (''Error 1100: '' @ errorString)]\<rparr>))
          (\<lambda>ws. Watchdog_scheduleRestart (fst ws) (snd ws)) \<and>
      returned (Watchdog_onError_call w reqId 1100 errorString contract s) \<and>
      timers (snd (state_of (Watchdog_onError_call w reqId 1100 errorString contract s))) =
        timers s @ [(retryDelay w, Watchdog_start)] \<and>
      0 < retryDelay w \<and>
      (case controller (fst (state_of (Watchdog_onError_call w reqId 1100 errorString contract s))) of
         None \<Rightarrow> False | Some c \<Rightarrow> proc c = None)) \<and>
   (Watchdog_ok w \<and> \<not> can_terminate w s \<longrightarrow>
      \<not> returned (Watchdog_onError_call w reqId 1100 errorString contract s) \<and>
      timers (snd (state_of (Watchdog_onError_call w reqId 1100 errorString contract s))) = timers s)"
proof (intro conjI impI)
  assume "errorCode \<noteq> 1100"
  then show "Watchdog_onError_call w reqId errorCode errorString contract s = Returns (w, s)"
    by (rule onError_other_code)
next
  let ?s1 = "s\<lparr>trace := trace s @ [Log Watchdog_logger INFO (''Error 1100: '' @ errorString)]\<rparr>"
  assume h: "Watchdog_ok w \<and> can_terminate w s"
  then have ok: "Watchdog_ok w" and ct: "can_terminate w ?s1" by simp_all
  have b: "Watchdog_onError_call w reqId 1100 errorString contract s = stop_and_restart w ?s1"
    by (rule onError_1100)
  from ok ct have r: "returned (stop_and_restart w ?s1) \<and>
         timers (snd (state_of (stop_and_restart w ?s1))) = timers ?s1 @ [(retryDelay w, Watchdog_start)] \<and>
         (case controller (fst (state_of (stop_and_restart w ?s1))) of
            None \<Rightarrow> False | Some c \<Rightarrow> proc c = None)"
    by (rule stop_and_restart_ok)
  from b show "Watchdog_onError_call w reqId 1100 errorString contract s =
        and_then (Watchdog_stop w ?s1) (\<lambda>ws. Watchdog_scheduleRestart (fst ws) (snd ws))"
    by (simp add: stop_and_restart_def)
  from b r show "returned (Watchdog_onError_call w reqId 1100 errorString contract s)" by simp
  from b r show "timers (snd (state_of (Watchdog_onError_call w reqId 1100 errorString contract s))) =
        timers s @ [(retryDelay w, Watchdog_start)]" by simp
  from ok show "0 < retryDelay w" by (simp add: Watchdog_ok_def)
  from b r show "case controller (fst (state_of (Watchdog_onError_call w reqId 1100 errorString contract s))) of
         None \<Rightarrow> False | Some c \<Rightarrow> proc c = None" by simp
next
  let ?s1 = "s\<lparr>trace := trace s @ [Log Watchdog_logger INFO (''Error 1100: '' @ errorString)]\<rparr>"
  assume h: "Watchdog_ok w \<and> \<not> can_terminate w s"
  then have ok: "Watchdog_ok w" and ct: "\<not> can_terminate w ?s1" by simp_all
  have b: "Watchdog_onError_call w reqId 1100 errorString contract s = stop_and_restart w ?s1"
    by (rule onError_1100)
  from ok ct have r: "\<not> returned (stop_and_restart w ?s1) \<and>
         timers (snd (state_of (stop_and_restart w ?s1))) = timers ?s1 \<and>
         stop_and_restart w ?s1 = Hangs (state_of (stop_and_restart w ?s1))"
    by (rule stop_and_restart_stuck)
  from b r show "\<not> returned (Watchdog_onError_call w reqId 1100 errorString contract s)" by simp
  from b r show "timers (snd (state_of (Watchdog_onError_call w reqId 1100 errorString contract s))) = timers s"
    by simp
qed

theorem onError_restarts_only_on_1100_witness:
  "(2104::int) \<noteq> 1100 \<and>
   Watchdog_onError_call running_app (-1) 2104 ''Market data farm connection is OK'' PNone running_world =
     Returns (running_app, running_world) \<and>
   Watchdog_ok running_app \<and> can_terminate running_app running_world \<and>
   returned (Watchdog_onError_call running_app (-1) 1100 ''Connectivity lost'' PNone running_world) \<and>
   timers (snd (state_of (Watchdog_onError_call running_app (-1) 1100 ''Connectivity lost'' PNone running_world))) =
     [(1, Watchdog_start)] \<and>
   \<not> can_terminate running_app stuck_world \<and>
   timers (snd (state_of (Watchdog_onError_call running_app (-1) 1100 ''Connectivity lost'' PNone stuck_world))) = []"
proof -
  have h1: "(2104::int) \<noteq> 1100" by simp
  note a = onError_restarts_only_on_1100 [of 2104 running_app "-1" "''Market data farm connection is OK''"
      PNone running_world, THEN conjunct1, THEN mp, OF h1]
  note b = onError_restarts_only_on_1100 [of 2104 running_app "-1" "''Connectivity lost''"
      PNone running_world, THEN conjunct2, THEN conjunct1, THEN mp, OF running_app_ok]
  note c = onError_restarts_only_on_1100 [of 2104 running_app "-1" "''Connectivity lost''"
      PNone stuck_world, THEN conjunct2, THEN conjunct2, THEN mp, OF running_app_stuck]
  have rd: "retryDelay running_app = 1" by (simp add: running_app_def Watchdog_defaults_def)
  from b have b1: "returned (Watchdog_onError_call running_app (-1) 1100 ''Connectivity lost'' PNone running_world)"
    by (elim conjE)
  from b have b2: "timers (snd (state_of (Watchdog_onError_call running_app (-1) 1100 ''Connectivity lost'' PNone running_world))) =
     [(1, Watchdog_start)]"
    by (elim conjE) (simp add: sample_timers rd)
  from c have c2: "timers (snd (state_of (Watchdog_onError_call running_app (-1) 1100 ''Connectivity lost'' PNone stuck_world))) = []"
    by (elim conjE) (simp add: sample_timers)
  show ?thesis
    by (intro conjI) (rule h1, rule a, rule running_app_ok [THEN conjunct1],
        rule running_app_ok [THEN conjunct2], rule b1, rule b2,
        rule running_app_stuck [THEN conjunct2], rule c2)
qed

text \<open>
  Claim C3 as stated fails: \<^verbatim>\<open>scheduleRestart\<close> called twice, the first restart still
  pending, leaves two pending restarts. The handle that \<^verbatim>\<open>call_later\<close> returns is not
  kept, and nothing in the module cancels a timer.
\<close>

theorem scheduleRestart_twice_two_pending:
  "timers (snd (state_of (Watchdog_scheduleRestart running_app
       (snd (state_of (Watchdog_scheduleRestart running_app running_world)))))) =
     [(1, Watchdog_start), (1, Watchdog_start)]"
  by (simp add: scheduleRestart_eq running_app_def Watchdog_defaults_def running_world_def world0_def)

text \<open>
  Claim C3, amended. Every call of \<^verbatim>\<open>scheduleRestart\<close> returns, logs, and adds one
  pending timer with delay \<^verbatim>\<open>retryDelay\<close> and callback \<^verbatim>\<open>start\<close> after the timers that
  are already pending, all of which stay.
\<close>

theorem scheduleRestart_adds_one:
  "Watchdog_scheduleRestart w s =
     Returns (w, s\<lparr>timers := timers s @ [(retryDelay w, Watchdog_start)],
                  trace := trace s @ [Log Watchdog_logger INFO
                                        (''Schedule restart in '' @ str_int (retryDelay w) @ ''s''),
                                      Call_later (retryDelay w) Watchdog_start]\<rparr>)"
  by (rule scheduleRestart_eq)

text \<open>
  Claim C4. When \<open>0 < appTimeout < 60\<close> or \<open>retryDelay > 0\<close> does not hold,
  \<^verbatim>\<open>Watchdog.__init__\<close> raises \<^verbatim>\<open>AssertionError\<close>, with the object and the world as
  they were; and every watchdog that \<^verbatim>\<open>__init__\<close> returns satisfies both bounds.
\<close>

theorem Watchdog_init_enforces_bounds:
  "(\<not> (0 < appTimeout w \<and> appTimeout w < 60 \<and> 0 < retryDelay w) \<longrightarrow>
      Watchdog_init w s = Raises AssertionError (w, s)) \<and>
   (Watchdog_init w s = Returns (w', s') \<longrightarrow>
      0 < appTimeout w' \<and> appTimeout w' < 60 \<and> 0 < retryDelay w')"
  by (auto simp add: Watchdog_init_def ensure_future_def Let_def split: option.splits if_splits)

theorem Watchdog_init_enforces_bounds_witness:
  "\<not> (0 < appTimeout (main_app_args\<lparr>appTimeout := 60\<rparr>) \<and>
       appTimeout (main_app_args\<lparr>appTimeout := 60\<rparr>) < 60 \<and>
       0 < retryDelay (main_app_args\<lparr>appTimeout := 60\<rparr>)) \<and>
   Watchdog_init (main_app_args\<lparr>appTimeout := 60\<rparr>) world0 =
     Raises AssertionError (main_app_args\<lparr>appTimeout := 60\<rparr>, world0) \<and>
   \<not> (0 < appTimeout (main_app_args\<lparr>retryDelay := 0\<rparr>) \<and>
       appTimeout (main_app_args\<lparr>retryDelay := 0\<rparr>) < 60 \<and>
       0 < retryDelay (main_app_args\<lparr>retryDelay := 0\<rparr>)) \<and>
   Watchdog_init (main_app_args\<lparr>retryDelay := 0\<rparr>) world0 =
     Raises AssertionError (main_app_args\<lparr>retryDelay := 0\<rparr>, world0) \<and>
   returned (Watchdog_init main_app_args world0) \<and>
   appTimeout (fst (state_of (Watchdog_init main_app_args world0))) = 20 \<and>
   retryDelay (fst (state_of (Watchdog_init main_app_args world0))) = 1"
proof -
  have h1: "\<not> (0 < appTimeout (main_app_args\<lparr>appTimeout := 60\<rparr>) \<and>
       appTimeout (main_app_args\<lparr>appTimeout := 60\<rparr>) < 60 \<and>
       0 < retryDelay (main_app_args\<lparr>appTimeout := 60\<rparr>))"
    by simp
  have h2: "\<not> (0 < appTimeout (main_app_args\<lparr>retryDelay := 0\<rparr>) \<and>
       appTimeout (main_app_args\<lparr>retryDelay := 0\<rparr>) < 60 \<and>
       0 < retryDelay (main_app_args\<lparr>retryDelay := 0\<rparr>))"
    by simp
  have r: "Watchdog_init main_app_args world0 =
      Returns (state_of (Watchdog_init main_app_args world0))"
    by (simp add: Watchdog_init_def main_app_args_def Watchdog_defaults_def ensure_future_def Let_def
        split: prod.splits)
  have r': "Watchdog_init main_app_args world0 =
      Returns (fst (state_of (Watchdog_init main_app_args world0)),
               snd (state_of (Watchdog_init main_app_args world0)))"
    using r by simp
  note a = Watchdog_init_enforces_bounds [of "main_app_args\<lparr>appTimeout := 60\<rparr>" world0,
      THEN conjunct1, THEN mp, OF h1]
  note b = Watchdog_init_enforces_bounds [of "main_app_args\<lparr>retryDelay := 0\<rparr>" world0,
      THEN conjunct1, THEN mp, OF h2]
  note c = Watchdog_init_enforces_bounds [of main_app_args world0
      "fst (state_of (Watchdog_init main_app_args world0))"
      "snd (state_of (Watchdog_init main_app_args world0))", THEN conjunct2, THEN mp, OF r']
  have v: "appTimeout (fst (state_of (Watchdog_init main_app_args world0))) = 20 \<and>
      retryDelay (fst (state_of (Watchdog_init main_app_args world0))) = 1"
    using c
    by (simp add: Watchdog_init_def main_app_args_def Watchdog_defaults_def ensure_future_def Let_def
        split: prod.splits)
  have ret: "returned (Watchdog_init main_app_args world0)"
    by (subst r) simp
  from h1 h2 a b ret v show ?thesis by (intro conjI) (simp_all only: simp_thms)
qed

lemma Watchdog_init_eq:
  "controller w = Some c \<Longrightarrow> 0 < appTimeout w \<Longrightarrow> appTimeout w < 60 \<Longrightarrow> 0 < retryDelay w \<Longrightarrow>
   Watchdog_init w s =
     Returns (w\<lparr>ib := Some ((case ib w of None \<Rightarrow> IB_new | Some i \<Rightarrow> i)
                          \<lparr>apiError := Some Watchdog_onApiError,
                           callbacks := (callbacks (case ib w of None \<Rightarrow> IB_new | Some i \<Rightarrow> i))
                                          (''error'' := Some Watchdog_onError)\<rparr>),
                watcher := Some (next_tid s)\<rparr>,
              s\<lparr>tasks := tasks s @ [(next_tid s, Watchdog_watchAsync)],
                next_tid := Suc (next_tid s),
                trace := trace s @ [Ensure_future (next_tid s) Watchdog_watchAsync]\<rparr>)"
  by (simp add: Watchdog_init_def ensure_future_def setCallback_def emit_def Let_def)

text \<open>
  Claim C10 as stated fails in its last part. In the module's main program the watchdog
  is constructed before \<^verbatim>\<open>IB.run()\<close> starts the event loop: the loop is not running,
  \<^verbatim>\<open>__init__\<close> returns, and the watch task is on the loop, to start when the loop runs.
\<close>

theorem Watchdog_init_without_running_loop:
  "\<not> loop_running world0 \<and> returned (Watchdog_init main_app_args world0) \<and>
   tasks (snd (state_of (Watchdog_init main_app_args world0))) = [(0, Watchdog_watchAsync)]"
proof -
  have c: "controller main_app_args = Some main_ibc"
    and b: "0 < appTimeout main_app_args" "appTimeout main_app_args < 60" "0 < retryDelay main_app_args"
    by (simp_all add: main_app_args_def Watchdog_defaults_def)
  show ?thesis
    by (simp add: Watchdog_init_eq [OF c b] world0_def)
qed

text \<open>
  Claim C10, amended. With a controller and timings within the bounds, \<^verbatim>\<open>__init__\<close>
  returns, and before \<^verbatim>\<open>start()\<close> is ever called it has taken the supplied connection
  client, or a fresh one if none was supplied, set the api-error callback of the client
  and the callback of the event \<^verbatim>\<open>error\<close> to the watchdog's own handlers, whatever they
  were before, and put the task of \<^verbatim>\<open>watchAsync\<close> on the event loop. The event loop need
  not be running, and \<^verbatim>\<open>__init__\<close> does not start it.
\<close>

theorem Watchdog_init_side_effects:
  "controller w = Some c \<and> 0 < appTimeout w \<and> appTimeout w < 60 \<and> 0 < retryDelay w \<longrightarrow>
   Watchdog_init w s =
     Returns (w\<lparr>ib := Some ((case ib w of None \<Rightarrow> IB_new | Some i \<Rightarrow> i)
                          \<lparr>apiError := Some Watchdog_onApiError,
                           callbacks := (callbacks (case ib w of None \<Rightarrow> IB_new | Some i \<Rightarrow> i))
                                          (''error'' := Some Watchdog_onError)\<rparr>),
                watcher := Some (next_tid s)\<rparr>,
              s\<lparr>tasks := tasks s @ [(next_tid s, Watchdog_watchAsync)],
                next_tid := Suc (next_tid s),
                trace := trace s @ [Ensure_future (next_tid s) Watchdog_watchAsync]\<rparr>) \<and>
   loop_running (snd (state_of (Watchdog_init w s))) = loop_running s"
proof
  assume "controller w = Some c \<and> 0 < appTimeout w \<and> appTimeout w < 60 \<and> 0 < retryDelay w"
  then have e: "Watchdog_init w s =
     Returns (w\<lparr>ib := Some ((case ib w of None \<Rightarrow> IB_new | Some i \<Rightarrow> i)
                          \<lparr>apiError := Some Watchdog_onApiError,
                           callbacks := (callbacks (case ib w of None \<Rightarrow> IB_new | Some i \<Rightarrow> i))
                                          (''error'' := Some Watchdog_onError)\<rparr>),
                watcher := Some (next_tid s)\<rparr>,
              s\<lparr>tasks := tasks s @ [(next_tid s, Watchdog_watchAsync)],
                next_tid := Suc (next_tid s),
                trace := trace s @ [Ensure_future (next_tid s) Watchdog_watchAsync]\<rparr>)"
    by (elim conjE) (rule Watchdog_init_eq)
  then show "Watchdog_init w s =
     Returns (w\<lparr>ib := Some ((case ib w of None \<Rightarrow> IB_new | Some i \<Rightarrow> i)
                          \<lparr>apiError := Some Watchdog_onApiError,
                           callbacks := (callbacks (case ib w of None \<Rightarrow> IB_new | Some i \<Rightarrow> i))
                                          (''error'' := Some Watchdog_onError)\<rparr>),
                watcher := Some (next_tid s)\<rparr>,
              s\<lparr>tasks := tasks s @ [(next_tid s, Watchdog_watchAsync)],
                next_tid := Suc (next_tid s),
                trace := trace s @ [Ensure_future (next_tid s) Watchdog_watchAsync]\<rparr>) \<and>
   loop_running (snd (state_of (Watchdog_init w s))) = loop_running s"
    by simp
qed

theorem Watchdog_init_side_effects_witness:
  "controller main_app_args = Some main_ibc \<and> 0 < appTimeout main_app_args \<and>
   appTimeout main_app_args < 60 \<and> 0 < retryDelay main_app_args \<and>
   ib main_app_args = None \<and>
   Watchdog_init main_app_args world0 =
     Returns (main_app_args\<lparr>ib := Some (IB_new\<lparr>apiError := Some Watchdog_onApiError,
                                  callbacks := (callbacks IB_new)(''error'' := Some Watchdog_onError)\<rparr>),
                watcher := Some 0\<rparr>,
              world0\<lparr>tasks := [(0, Watchdog_watchAsync)], next_tid := 1,
                trace := [Ensure_future 0 Watchdog_watchAsync]\<rparr>) \<and>
   \<not> loop_running (snd (state_of (Watchdog_init main_app_args world0)))"
proof -
  have h: "controller main_app_args = Some main_ibc \<and> 0 < appTimeout main_app_args \<and>
      appTimeout main_app_args < 60 \<and> 0 < retryDelay main_app_args"
    by (simp add: main_app_args_def Watchdog_defaults_def)
  have n: "ib main_app_args = None"
    by (simp add: main_app_args_def Watchdog_defaults_def)
  have w0: "tasks world0 = [] \<and> next_tid world0 = 0 \<and> trace world0 = [] \<and> \<not> loop_running world0"
    by (simp add: world0_def)
  note t = Watchdog_init_side_effects [of main_app_args main_ibc world0, THEN mp, OF h]
  from t n w0 have "Watchdog_init main_app_args world0 =
     Returns (main_app_args\<lparr>ib := Some (IB_new\<lparr>apiError := Some Watchdog_onApiError,
                                  callbacks := (callbacks IB_new)(''error'' := Some Watchdog_onError)\<rparr>),
                watcher := Some 0\<rparr>,
              world0\<lparr>tasks := [(0, Watchdog_watchAsync)], next_tid := 1,
                trace := [Ensure_future 0 Watchdog_watchAsync]\<rparr>)"
    by simp
  moreover from t w0 have "\<not> loop_running (snd (state_of (Watchdog_init main_app_args world0)))"
    by simp
  ultimately show ?thesis using h n by simp
qed

section \<open>A handle is always set together with its monitor\<close>

lemma IBC_startAsync_spawns:
  "proc c = None \<Longrightarrow>
   IBC_startAsync c s =
     Returns (c\<lparr>proc := Some (next_pid s), monitor := Some (next_tid s)\<rparr>,
              s\<lparr>os_procs := (os_procs s)(next_pid s := Running), next_pid := Suc (next_pid s),
                tasks := tasks s @ [(next_tid s, Controller_monitorAsync)],
                next_tid := Suc (next_tid s),
                trace := trace s @ [Log (logger c) INFO ''Starting'',
                                    Subprocess_shell (next_pid s) (spec_cmd (win32 s) c) (environ s),
                                    Ensure_future (next_tid s) Controller_monitorAsync]\<rparr>)"
  by (simp add: IBC_startAsync_def IBC_cmd_eq create_subprocess_shell_def ensure_future_def
      log_msg_def emit_def Let_def)

lemma IBC_init_ctrl_ok: "ctrl_ok (IBC_init w32 c)"
  by (simp add: IBC_init_def ctrl_ok_def Let_def)

lemma IBC_startAsync_ctrl_ok:
  "ctrl_ok c \<Longrightarrow> IBC_startAsync c s = Returns (c', s') \<Longrightarrow> ctrl_ok c'"
  by (cases "proc c")
     (auto simp add: IBC_startAsync_def IBC_cmd_eq create_subprocess_shell_def ensure_future_def
        ctrl_ok_def Let_def)

lemma terminateAsync_ctrl_ok:
  "terminateAsync c s = Returns (c', s') \<Longrightarrow> ctrl_ok c'"
  by (simp add: ctrl_ok_def terminateAsync_returns_cleared)

lemma Watchdog_stop_ok:
  "Watchdog_ok w \<Longrightarrow> Watchdog_stop w s = Returns (w', s') \<Longrightarrow> Watchdog_ok w'"
proof -
  assume ok: "Watchdog_ok w" and r: "Watchdog_stop w s = Returns (w', s')"
  then obtain i c where i: "ib w = Some i" and c: "controller w = Some c"
    by (auto simp add: Watchdog_stop_def Let_def split: option.splits)
  let ?s2 = "emit IB_disconnect (log_msg Watchdog_logger INFO ''Stopping'' s)"
  from r i c obtain c' where t: "terminateAsync c ?s2 = Returns (c', s')"
    and w': "w' = w\<lparr>ib := Some (i\<lparr>connected := False\<rparr>), controller := Some c'\<rparr>"
    by (cases "terminateAsync c ?s2") (auto simp add: Watchdog_stop_def Let_def)
  from t have "ctrl_ok c'" by (rule terminateAsync_ctrl_ok)
  with ok w' show ?thesis by (simp add: Watchdog_ok_def)
qed


end
